theory Spec2Isabelle
  imports Main
begin

section \<open>Data model of the HTML content handler (\<^verbatim>\<open>content/handlers/html/html.c\<close>)\<close>

text \<open>
  The handler is written against libdom, hubbub, nsurl and the content core. Those
  collaborators are not part of the sources at hand; their answers are parameters of the
  model (the record \<open>env\<close> below), and every call that html.c makes to the outside world
  and whose order matters is logged as an \<open>event\<close>. Each C function becomes a function
  from the content it is given to its return value, the updated content and the events it
  produced, in the order of the C statements.
\<close>

datatype nserror =
    NSERROR_OK
  | NSERROR_UNKNOWN
  | NSERROR_NOMEM
  | NSERROR_DOM
  | NSERROR_STOPPED
  | NSERROR_BOX_CONVERT
  | NSERROR_ENCODING_CHANGE
  | NSERROR_BAD_PARAMETER
  | NSERROR_BAD_URL
  | NSERROR_CSS

datatype dom_exception = DOM_NO_ERR | DOM_NO_MEM_ERR | DOM_NOT_FOUND_ERR | DOM_INVALID_STATE_ERR

datatype dom_hubbub_error =
    DOM_HUBBUB_OK
  | DOM_HUBBUB_NOMEM
  | DOM_HUBBUB_BADPARM
  | DOM_HUBBUB_DOM
  | DOM_HUBBUB_HUBBUB_ERR_PAUSED
  | DOM_HUBBUB_HUBBUB_ERR_ENCODINGCHANGE
  | DOM_HUBBUB_HUBBUB_ERR_BADENCODING
  | DOM_HUBBUB_HUBBUB_ERR_UNKNOWN

datatype content_status =
    CONTENT_STATUS_LOADING
  | CONTENT_STATUS_READY
  | CONTENT_STATUS_DONE
  | CONTENT_STATUS_ERROR

type_synonym nsurl = string

text \<open>
  \<open>struct content\<close>, as far as html.c reads and writes it. The counter \<open>active\<close> is
  only compared with and stepped around zero here, so it is an \<open>int\<close>; the field
  \<open>c->base.refresh\<close> is called \<open>content_refresh\<close>, because \<open>html_content\<close> has a
  flag of the same name.
\<close>

record content =
  status :: content_status
  active :: int
  url :: nsurl
  content_refresh :: "nsurl option"
  source_data :: string

record html_stylesheet =
  sheet :: "nat option"
  modified :: bool


text \<open>
  A DOM node as the mutation observer sees it: libdom is asked for the node's type, its
  tag and its attributes, and each question is answered with an exception code and a
  value. An absent attribute is \<open>DOM_NO_ERR\<close> with a NULL string, here \<open>None\<close>.
\<close>

datatype dom_node_type = DOM_ELEMENT_NODE | DOM_TEXT_NODE | DOM_COMMENT_NODE | DOM_DOCUMENT_NODE

datatype dom_html_element_type =
    DOM_HTML_ELEMENT_TYPE__UNKNOWN
  | DOM_HTML_ELEMENT_TYPE_LINK
  | DOM_HTML_ELEMENT_TYPE_META
  | DOM_HTML_ELEMENT_TYPE_TITLE
  | DOM_HTML_ELEMENT_TYPE_BASE
  | DOM_HTML_ELEMENT_TYPE_IMG
  | DOM_HTML_ELEMENT_TYPE_STYLE
  | DOM_HTML_ELEMENT_TYPE_SCRIPT
  | DOM_HTML_ELEMENT_TYPE_DIV

record dom_node =
  node_type :: "dom_exception \<times> dom_node_type"
  tag_type :: "dom_exception \<times> dom_html_element_type"
  attribute :: "string \<Rightarrow> dom_exception \<times> string option"

record dom_event =
  target :: "dom_exception \<times> dom_node option"

text \<open>
  The document tree that \<open>html_exec\<close> manipulates: nodes are numbered handles, each with
  an optional parent and an ordered list of children; \<open>next_node\<close> is the next unused
  handle, \<open>body\<close> the document's body element and \<open>text_of\<close> the data of text nodes.
\<close>

record dom_document =
  next_node :: nat
  parent_node :: "nat \<Rightarrow> nat option"
  child_nodes :: "nat \<Rightarrow> nat list"
  text_of :: "nat \<Rightarrow> string option"
  element_name :: "nat \<Rightarrow> string option"
  body :: nat

record form =
  action :: "string option"
  document_charset :: "string option"

record html_content =
  base :: content
  parser :: "nat option"
  parse_completed :: bool
  conversion_begun :: bool
  document :: "dom_document option"
  encoding :: "string option"
  encoding_source :: nat
  base_url :: "nsurl option"
  base_target :: "string option"
  aborted :: bool
  refresh :: bool
  title :: "dom_node option"
  stylesheets :: "html_stylesheet list"
  select_ctx :: "nat option"
  forms :: "form list"
  jsthread :: "nat option"
  enable_scripting :: bool
  box_conversion_context :: "nat option"

text \<open>
  The array \<open>stylesheets\<close> with its length \<open>stylesheet_count\<close> is the list
  \<open>stylesheets\<close>; the singly linked \<open>forms\<close> (walked through \<open>prev\<close>) is the list
  \<open>forms\<close> in walking order.
\<close>

datatype content_msg =
    CONTENT_MSG_REFRESH int
  | CONTENT_MSG_STATUS
  | CONTENT_MSG_GETDIMS
  | CONTENT_MSG_GETTHREAD
  | CONTENT_MSG_READY
  | CONTENT_MSG_DONE

datatype event =
    Content_broadcast content_msg
  | Content_broadcast_error nserror
  | Parser_completed
  | Parser_parse_chunk string
  | Parser_get_encoding
  | Parser_destroy
  | Parser_create "string option"
  | Document_unref
  | Html_script_exec
  | Html_object_free_objects
  | Js_fire_event string
  | Js_handle_new_element
  | Dom_to_box


section \<open>The collaborators of html.c\<close>

text \<open>
  What the code outside html.c answers when it is called. The parser and the script
  engine call back into the content: completing the parse, feeding a chunk and running
  the pending scripts can start fetches and add stylesheets, and html.c tests the content
  again after them, so these calls return the content as they left it. Of the other calls
  the answer is taken and the call is logged. \<open>alloc_fails\<close> says for which strings
  \<open>strdup\<close> and \<open>strndup\<close> return NULL; \<open>LONG_MAX\<close> is the largest \<open>long\<close> of the
  platform, at which \<open>strtol\<close> saturates.
\<close>

record env =
  ascii_is_space :: "char \<Rightarrow> bool"
  LONG_MAX :: int
  alloc_fails :: "string \<Rightarrow> bool"
  nsurl_create :: "string \<Rightarrow> nserror \<times> nsurl"
  nsurl_join :: "nsurl option \<Rightarrow> string \<Rightarrow> nserror \<times> nsurl"
  libdom_hubbub_error_to_nserror :: "dom_hubbub_error \<Rightarrow> nserror"
  dom_hubbub_parser_completed :: "html_content \<Rightarrow> dom_hubbub_error \<times> html_content"
  dom_hubbub_parser_parse_chunk :: "html_content \<Rightarrow> string \<Rightarrow> dom_hubbub_error \<times> html_content"
  dom_hubbub_parser_get_encoding :: "html_content \<Rightarrow> string option \<times> nat"
  dom_hubbub_parser_create :: "string option \<Rightarrow> dom_hubbub_error \<times> nat \<times> dom_document"
  html_script_exec :: "html_content \<Rightarrow> html_content"
  dom_document_get_document_element :: "html_content \<Rightarrow> dom_exception \<times> nat option"
  dom_node_get_node_name :: "nat \<Rightarrow> dom_exception \<times> string option"
  html_forms_get_forms :: "html_content \<Rightarrow> form list"
  html_css_new_selection_context :: "html_content \<Rightarrow> nserror \<times> nat"
  dom_to_box :: "html_content \<Rightarrow> nserror \<times> nat option"
  imagemap_extract :: "html_content \<Rightarrow> nserror"
  getthread_listener :: "html_content \<Rightarrow> nat option"
  html_css_process_link :: "html_content \<Rightarrow> dom_node \<Rightarrow> html_content"
  html_process_link :: "html_content \<Rightarrow> dom_node \<Rightarrow> html_content"
  html_process_img :: "html_content \<Rightarrow> dom_node \<Rightarrow> html_content"
  html_css_process_style :: "html_content \<Rightarrow> dom_node \<Rightarrow> html_content"
  dom_SCRIPT_showed_up :: "html_content \<Rightarrow> dom_node \<Rightarrow> html_content"

definition strdup :: "env \<Rightarrow> string \<Rightarrow> string option" where
  "strdup env s = (if alloc_fails env s then None else Some s)"

text \<open>
  \<open>dom_string_caseless_lwc_isequal\<close> and \<open>strncasecmp\<close> compare without regard to the
  case of ASCII letters. A capital letter (65 to 90) becomes the small one by adding 32,
  which sets the bit of weight 32, the sixth of the character.
\<close>

fun ascii_to_lower :: "char \<Rightarrow> char" where
  "ascii_to_lower (Char b0 b1 b2 b3 b4 b5 b6 b7) =
     (let n = (of_char (Char b0 b1 b2 b3 b4 b5 b6 b7) :: nat) in
      if 65 \<le> n \<and> n \<le> 90 then Char b0 b1 b2 b3 b4 True b6 b7
      else Char b0 b1 b2 b3 b4 b5 b6 b7)"

definition caseless_isequal :: "string \<Rightarrow> string \<Rightarrow> bool" where
  "caseless_isequal a b = (map ascii_to_lower a = map ascii_to_lower b)"

section \<open>The conversion guard\<close>

text \<open>The \<open>for\<close> loop of \<open>html_can_begin_conversion\<close> over the stylesheet array.\<close>

fun stylesheets_unmodified :: "html_stylesheet list \<Rightarrow> bool" where
  "stylesheets_unmodified [] = True"
| "stylesheets_unmodified (s # ss) = (if modified s then False else stylesheets_unmodified ss)"

text \<open>
  \<open>html_can_begin_conversion\<close> assigns to nothing: it reads the counter and the array
  through its pointer and returns. It is therefore a function from the content to the
  answer, and its callers go on with the content they passed.
\<close>

definition html_can_begin_conversion :: "html_content \<Rightarrow> bool" where
  "html_can_begin_conversion htmlc =
     (if active (base htmlc) \<noteq> 0 then False
      else stylesheets_unmodified (stylesheets htmlc))"

section \<open>The base element\<close>

text \<open>
  The test on the target attribute in \<open>html_process_base\<close>: the first byte is not an
  underscore (the first byte of the empty string is its terminating NUL), or the string
  is one of the four keywords.
\<close>

definition base_target_valid :: "string \<Rightarrow> bool" where
  "base_target_valid s =
     ((case s of [] \<Rightarrow> True | ch # _ \<Rightarrow> ch \<noteq> CHR ''_'')
      \<or> caseless_isequal s ''_blank''
      \<or> caseless_isequal s ''_self''
      \<or> caseless_isequal s ''_parent''
      \<or> caseless_isequal s ''_top'')"

definition html_process_base :: "env \<Rightarrow> html_content \<Rightarrow> dom_node \<Rightarrow> bool \<times> html_content" where
  "html_process_base env c node =
     (let c1 = (case attribute node ''href'' of
                  (exc, None) \<Rightarrow> c
                | (exc, Some atr_string) \<Rightarrow>
                    if exc = DOM_NO_ERR then
                      (case nsurl_create env atr_string of
                         (error, u) \<Rightarrow> if error = NSERROR_OK then c\<lparr>base_url := Some u\<rparr> else c)
                    else c)
      in if base_target c1 \<noteq> None then (True, c1)
         else (case attribute node ''target'' of
                 (exc, None) \<Rightarrow> (True, c1)
               | (exc, Some atr_string) \<Rightarrow>
                   if exc = DOM_NO_ERR then
                     (if base_target_valid atr_string
                      then (True, c1\<lparr>base_target := strdup env atr_string\<rparr>)
                      else (True, c1))
                   else (True, c1)))"

text \<open>Base elements arriving one after the other, each handled by \<open>html_process_base\<close>.\<close>

fun html_process_bases :: "env \<Rightarrow> html_content \<Rightarrow> dom_node list \<Rightarrow> html_content" where
  "html_process_bases env c [] = c"
| "html_process_bases env c (node # nodes) =
     html_process_bases env (snd (html_process_base env c node)) nodes"


section \<open>The meta refresh directive\<close>

definition is_digit :: "char \<Rightarrow> bool" where
  "is_digit c = (let n = (of_char c :: nat) in 48 \<le> n \<and> n \<le> 57)"

definition digit_val :: "char \<Rightarrow> int" where
  "digit_val c = int (of_char c) - 48"

text \<open>The number that a run of decimal digits denotes.\<close>

definition decimal_value :: "string \<Rightarrow> int" where
  "decimal_value ds = foldl (\<lambda>acc ch. 10 * acc + digit_val ch) 0 ds"

text \<open>
  \<open>strtol(url, &new_url, 10)\<close> where it is called: \<open>url\<close> starts with a digit, so there
  is neither white space nor a sign to skip. The result is the value of the longest run
  of digits, \<open>LONG_MAX\<close> if that value does not fit a \<open>long\<close>, and the rest of the string.
\<close>

definition strtol :: "env \<Rightarrow> string \<Rightarrow> int \<times> string" where
  "strtol env s =
     (min (decimal_value (takeWhile is_digit s)) (LONG_MAX env), dropWhile is_digit s)"

text \<open>The cast \<open>(int)\<close> of a \<open>long\<close>: the low 32 bits, read as two's complement.\<close>

definition int_of_long :: "int \<Rightarrow> int" where
  "int_of_long l = (l + 2 ^ 31) mod 2 ^ 32 - 2 ^ 31"

text \<open>
  The part of \<open>html_meta_refresh_process_element\<close> that walks over the content
  attribute. A pointer \<open>url\<close> into the buffer that ends at \<open>end\<close> is the rest of the
  string from that pointer on; \<open>while (url < end && p(*url)) url++\<close> is \<open>dropWhile p\<close>.
  It is cut in four: the end, once "There's a URL"; the URL clause from the keyword on;
  the fraction and the separators after the delay; and the delay itself.
\<close>

definition meta_refresh_join ::
    "env \<Rightarrow> html_content \<Rightarrow> int \<Rightarrow> string \<Rightarrow> nserror \<times> html_content \<times> event list" where
  "meta_refresh_join env c delay refresh_text =
     (case strdup env refresh_text of
        None \<Rightarrow> (NSERROR_NOMEM, c, [])
      | Some new_url \<Rightarrow>
          (case nsurl_join env (base_url c) new_url of
             (error, u) \<Rightarrow>
               if error = NSERROR_OK then
                 (error,
                  c\<lparr>base := (base c)\<lparr>content_refresh := Some u\<rparr>, refresh := True\<rparr>,
                  [Content_broadcast (CONTENT_MSG_REFRESH delay)])
               else (error, c, [])))"

definition meta_refresh_url_part ::
    "env \<Rightarrow> html_content \<Rightarrow> int \<Rightarrow> string \<Rightarrow> nserror \<times> html_content \<times> event list" where
  "meta_refresh_url_part env c delay url0 =
     (if 3 \<le> length url0 then
        (if caseless_isequal (take 3 url0) ''url'' then
           (let url1 = dropWhile (ascii_is_space env) (drop 3 url0) in
            case url1 of
              [] \<Rightarrow> (NSERROR_OK, c, [])
            | ch # url2 \<Rightarrow>
                if ch = CHR ''='' then
                  (let url3 = dropWhile (ascii_is_space env) url2;
                       quote = (case url3 of
                                  [] \<Rightarrow> None
                                | q # _ \<Rightarrow> if q = CHR 0x22 \<or> q = CHR 0x27 then Some q else None);
                       refresh_start = (if quote \<noteq> None then tl url3 else url3);
                       refresh_text =
                         (case quote of
                            Some q \<Rightarrow> takeWhile (\<lambda>x. x \<noteq> q) refresh_start
                          | None \<Rightarrow> takeWhile (\<lambda>x. \<not> ascii_is_space env x) refresh_start)
                   in if refresh_text \<noteq> [] then meta_refresh_join env c delay refresh_text
                      else (NSERROR_OK, c, []))
                else (NSERROR_OK, c, []))
         else (NSERROR_OK, c, []))
      else (NSERROR_OK, c, []))"

definition meta_refresh_after_delay ::
    "env \<Rightarrow> html_content \<Rightarrow> int \<Rightarrow> string \<Rightarrow> nserror \<times> html_content \<times> event list" where
  "meta_refresh_after_delay env c delay new_url =
     (let u1 = dropWhile (\<lambda>x. is_digit x \<or> x = CHR ''.'') new_url;
          u2 = dropWhile (ascii_is_space env) u1;
          u3 = (case u2 of [] \<Rightarrow> u2 | x # r \<Rightarrow> if x = CHR '';'' then r else u2);
          u4 = dropWhile (ascii_is_space env) u3
      in if u4 = [] then
           (NSERROR_OK,
            c\<lparr>base := (base c)\<lparr>content_refresh := Some (url (base c))\<rparr>\<rparr>,
            [Content_broadcast (CONTENT_MSG_REFRESH delay)])
         else meta_refresh_url_part env c delay u4)"

definition meta_refresh_content ::
    "env \<Rightarrow> html_content \<Rightarrow> string \<Rightarrow> nserror \<times> html_content \<times> event list" where
  "meta_refresh_content env c content =
     (let u0 = dropWhile (ascii_is_space env) content in
      case u0 of
        [] \<Rightarrow> (NSERROR_OK, c, [])
      | ch # _ \<Rightarrow>
          if \<not> is_digit ch then (NSERROR_OK, c, [])
          else
            (let (l, new_url) = strtol env u0;
                 delay0 = int_of_long l;
                 delay = (if delay0 < 1 then 1 else delay0)
             in meta_refresh_after_delay env c delay new_url))"

definition html_meta_refresh_process_element ::
    "env \<Rightarrow> html_content \<Rightarrow> dom_node \<Rightarrow> nserror \<times> html_content \<times> event list" where
  "html_meta_refresh_process_element env c n =
     (case attribute n ''http-equiv'' of
        (exc, equiv_str) \<Rightarrow>
          if exc \<noteq> DOM_NO_ERR then (NSERROR_DOM, c, [])
          else
            (case equiv_str of
               None \<Rightarrow> (NSERROR_OK, c, [])
             | Some e \<Rightarrow>
                 if \<not> caseless_isequal e ''refresh'' then (NSERROR_OK, c, [])
                 else
                   (case attribute n ''content'' of
                      (exc', content) \<Rightarrow>
                        if exc' \<noteq> DOM_NO_ERR then (NSERROR_DOM, c, [])
                        else
                          (case content of
                             None \<Rightarrow> (NSERROR_OK, c, [])
                           | Some s \<Rightarrow> meta_refresh_content env c s))))"

section \<open>The mutation observer\<close>

text \<open>
  \<open>dom_default_action_DOMNodeInserted_cb\<close>. The handlers of link, img, style and
  script elements are parameters: they start fetches and talk to the style and script
  engines.
\<close>

definition dom_default_action_DOMNodeInserted_cb ::
    "env \<Rightarrow> html_content \<Rightarrow> dom_event \<Rightarrow> html_content \<times> event list" where
  "dom_default_action_DOMNodeInserted_cb env htmlc evt =
     (case target evt of
        (exc, None) \<Rightarrow> (htmlc, [])
      | (exc, Some node) \<Rightarrow>
          if exc \<noteq> DOM_NO_ERR then (htmlc, [])
          else if fst (node_type node) = DOM_NO_ERR \<and> snd (node_type node) = DOM_ELEMENT_NODE then
            (let tag = (if fst (tag_type node) \<noteq> DOM_NO_ERR
                        then DOM_HTML_ELEMENT_TYPE__UNKNOWN
                        else snd (tag_type node));
                 (h1, ev1) =
                   (case tag of
                      DOM_HTML_ELEMENT_TYPE_LINK \<Rightarrow>
                        (html_process_link env (html_css_process_link env htmlc node) node, [])
                    | DOM_HTML_ELEMENT_TYPE_META \<Rightarrow>
                        if refresh htmlc then (htmlc, [])
                        else snd (html_meta_refresh_process_element env htmlc node)
                    | DOM_HTML_ELEMENT_TYPE_TITLE \<Rightarrow>
                        if title htmlc \<noteq> None then (htmlc, [])
                        else (htmlc\<lparr>title := Some node\<rparr>, [])
                    | DOM_HTML_ELEMENT_TYPE_BASE \<Rightarrow>
                        (snd (html_process_base env htmlc node), [])
                    | DOM_HTML_ELEMENT_TYPE_IMG \<Rightarrow> (html_process_img env htmlc node, [])
                    | DOM_HTML_ELEMENT_TYPE_STYLE \<Rightarrow>
                        (html_css_process_style env htmlc node, [])
                    | DOM_HTML_ELEMENT_TYPE_SCRIPT \<Rightarrow>
                        (dom_SCRIPT_showed_up env htmlc node, [])
                    | _ \<Rightarrow> (htmlc, []))
             in if enable_scripting h1 then
                  (let (h2, ev2) =
                         (if jsthread h1 = None
                          then (h1\<lparr>jsthread := getthread_listener env h1\<rparr>,
                                [Content_broadcast CONTENT_MSG_GETTHREAD])
                          else (h1, []))
                   in if jsthread h2 \<noteq> None
                      then (h2, ev1 @ ev2 @ [Js_handle_new_element])
                      else (h2, ev1 @ ev2))
                else (h1, ev1))
          else (htmlc, []))"

text \<open>Nodes inserted one after the other, each announced to the observer.\<close>

fun observe_all :: "env \<Rightarrow> html_content \<Rightarrow> dom_event list \<Rightarrow> html_content \<times> event list" where
  "observe_all env htmlc [] = (htmlc, [])"
| "observe_all env htmlc (evt # evts) =
     (let (h1, ev1) = dom_default_action_DOMNodeInserted_cb env htmlc evt;
          (h2, ev2) = observe_all env h1 evts
      in (h2, ev1 @ ev2))"


section \<open>The content life cycle\<close>

text \<open>
  Modelled from the spec: \<open>content_set_error\<close>, \<open>content_set_ready\<close> and
  \<open>content_set_done\<close> live in the content core, which is not among the sources. The
  life cycle "exposes status transitions and broadcasts typed messages to listeners":
  each sets the status, and the moves to READY and DONE are announced.
\<close>

definition content_set_error :: "content \<Rightarrow> content" where
  "content_set_error c = c\<lparr>status := CONTENT_STATUS_ERROR\<rparr>"

definition content_set_ready :: "content \<Rightarrow> content \<times> event list" where
  "content_set_ready c =
     (c\<lparr>status := CONTENT_STATUS_READY\<rparr>, [Content_broadcast CONTENT_MSG_READY])"

definition content_set_done :: "content \<Rightarrow> content \<times> event list" where
  "content_set_done c =
     (c\<lparr>status := CONTENT_STATUS_DONE\<rparr>, [Content_broadcast CONTENT_MSG_DONE])"

section \<open>The conversion state machine\<close>

definition html_proceed_to_done :: "html_content \<Rightarrow> nserror \<times> html_content \<times> event list" where
  "html_proceed_to_done html =
     (case status (base html) of
        CONTENT_STATUS_READY \<Rightarrow>
          if active (base html) = 0 then
            (let (b, ev) = content_set_done (base html) in (NSERROR_OK, html\<lparr>base := b\<rparr>, ev))
          else (NSERROR_UNKNOWN, html, [])
      | CONTENT_STATUS_DONE \<Rightarrow> (NSERROR_OK, html, [])
      | CONTENT_STATUS_LOADING \<Rightarrow> (NSERROR_OK, html, [])
      | _ \<Rightarrow> (NSERROR_UNKNOWN, html, []))"

text \<open>
  \<open>html_box_convert_done\<close> is the completion callback that \<open>dom_to_box\<close> is given;
  \<open>success\<close> tells whether the box tree was built.
\<close>

definition html_box_convert_done :: "env \<Rightarrow> html_content \<Rightarrow> bool \<Rightarrow> html_content \<times> event list" where
  "html_box_convert_done env c0 success =
     (let c = c0\<lparr>box_conversion_context := None\<rparr> in
      if \<not> success \<or> aborted c then
        (c\<lparr>base := content_set_error (base c)\<rparr>,
         [Html_object_free_objects,
          Content_broadcast_error (if \<not> success then NSERROR_BOX_CONVERT else NSERROR_STOPPED)])
      else
        (case dom_document_get_document_element env c of
           (exc, html) \<Rightarrow>
             if exc \<noteq> DOM_NO_ERR \<or> html = None then
               (c\<lparr>base := content_set_error (base c)\<rparr>, [Content_broadcast_error NSERROR_DOM])
             else
               (let err = imagemap_extract env c in
                if err \<noteq> NSERROR_OK then
                  (c\<lparr>base := content_set_error (base c)\<rparr>,
                   [Html_object_free_objects, Content_broadcast_error err])
                else
                  (let c1 = c\<lparr>parser := None\<rparr>;
                       (b, ev1) = content_set_ready (base c1);
                       (r, c2, ev2) = html_proceed_to_done (c1\<lparr>base := b\<rparr>)
                   in (c2, [Parser_destroy] @ ev1 @ ev2)))))"

definition html_finish_conversion :: "env \<Rightarrow> html_content \<Rightarrow> html_content \<times> event list" where
  "html_finish_conversion env htmlc =
     (if aborted htmlc then
        (htmlc\<lparr>base := content_set_error (base htmlc)\<rparr>, [Content_broadcast_error NSERROR_STOPPED])
      else if select_ctx htmlc \<noteq> None then (htmlc, [])
      else
        (case html_css_new_selection_context env htmlc of
           (error, ctx) \<Rightarrow>
             if error \<noteq> NSERROR_OK then
               (htmlc\<lparr>base := content_set_error (base htmlc)\<rparr>, [Content_broadcast_error error])
             else
               (let h1 = htmlc\<lparr>select_ctx := Some ctx\<rparr>;
                    ev1 = (if jsthread h1 \<noteq> None then [Js_fire_event ''load''] else [])
                          @ [Content_broadcast CONTENT_MSG_STATUS]
                in case dom_document_get_document_element env h1 of
                     (exc, html) \<Rightarrow>
                       if exc \<noteq> DOM_NO_ERR \<or> html = None then
                         (h1\<lparr>base := content_set_error (base h1)\<rparr>,
                          ev1 @ [Content_broadcast_error NSERROR_DOM])
                       else
                         (case dom_to_box env h1 of
                            (error', bctx) \<Rightarrow>
                              if error' \<noteq> NSERROR_OK then
                                (h1\<lparr>base := content_set_error (base h1)\<rparr>,
                                 ev1 @ [Content_broadcast CONTENT_MSG_GETDIMS, Dom_to_box,
                                        Html_object_free_objects, Content_broadcast_error error'])
                              else
                                (h1\<lparr>box_conversion_context := bctx\<rparr>,
                                 ev1 @ [Content_broadcast CONTENT_MSG_GETDIMS, Dom_to_box])))))"

text \<open>
  One turn of the loop over the forms in \<open>html_begin_conversion\<close>: the action is made
  absolute and a missing charset is filled in. The form is returned as the turn left it,
  with the error that ends the conversion, if any.
\<close>

definition begin_conversion_form :: "env \<Rightarrow> html_content \<Rightarrow> form \<Rightarrow> nserror \<times> form" where
  "begin_conversion_form env htmlc f =
     (let (ns_error, act) =
            (case action f of
               None \<Rightarrow> nsurl_join env (base_url htmlc) (url (base htmlc))
             | Some a \<Rightarrow>
                 if a = [] then nsurl_join env (base_url htmlc) (url (base htmlc))
                 else nsurl_join env (base_url htmlc) a)
      in if ns_error \<noteq> NSERROR_OK then (ns_error, f)
         else
           (let f1 = f\<lparr>action := strdup env act\<rparr> in
            if action f1 = None then (NSERROR_NOMEM, f1)
            else if document_charset f1 = None then
              (let f2 = f1\<lparr>document_charset :=
                             (case encoding htmlc of None \<Rightarrow> None | Some e \<Rightarrow> strdup env e)\<rparr>
               in if document_charset f2 = None then (NSERROR_NOMEM, f2) else (NSERROR_OK, f2))
            else (NSERROR_OK, f1)))"

fun begin_conversion_forms :: "env \<Rightarrow> html_content \<Rightarrow> form list \<Rightarrow> nserror \<times> form list" where
  "begin_conversion_forms env htmlc [] = (NSERROR_OK, [])"
| "begin_conversion_forms env htmlc (f # fs) =
     (case begin_conversion_form env htmlc f of
        (e, f') \<Rightarrow>
          if e \<noteq> NSERROR_OK then (e, f' # fs)
          else (case begin_conversion_forms env htmlc fs of (e', fs') \<Rightarrow> (e', f' # fs')))"

text \<open>
  \<open>html_begin_conversion\<close> from "Conversion begins proper at this point" on: the guard
  has been passed and the content is not aborted.
\<close>

definition begin_conversion_proper :: "env \<Rightarrow> html_content \<Rightarrow> bool \<times> html_content \<times> event list" where
  "begin_conversion_proper env h0 =
     (let h1 = html_script_exec env (h0\<lparr>conversion_begun := True\<rparr>);
          ev1 = [Html_script_exec];
          (enc_ok, h2, ev2) =
            (if encoding h1 = None then
               (case dom_hubbub_parser_get_encoding env h1 of
                  (enc, src) \<Rightarrow>
                    (let h = h1\<lparr>encoding_source := src\<rparr> in
                     case enc of
                       None \<Rightarrow> (False, h, [Parser_get_encoding, Content_broadcast_error NSERROR_NOMEM])
                     | Some e \<Rightarrow>
                         (case strdup env e of
                            None \<Rightarrow>
                              (False, h, [Parser_get_encoding, Content_broadcast_error NSERROR_NOMEM])
                          | Some e' \<Rightarrow> (True, h\<lparr>encoding := Some e'\<rparr>, [Parser_get_encoding]))))
             else (True, h1, []))
      in if \<not> enc_ok then (False, h2, ev1 @ ev2)
         else
           (case dom_document_get_document_element env h2 of
              (exc, None) \<Rightarrow> (False, h2, ev1 @ ev2 @ [Content_broadcast_error NSERROR_DOM])
            | (exc, Some html) \<Rightarrow>
                if exc \<noteq> DOM_NO_ERR then
                  (False, h2, ev1 @ ev2 @ [Content_broadcast_error NSERROR_DOM])
                else
                  (case dom_node_get_node_name env html of
                     (exc', None) \<Rightarrow> (False, h2, ev1 @ ev2 @ [Content_broadcast_error NSERROR_DOM])
                   | (exc', Some node_name) \<Rightarrow>
                       if exc' \<noteq> DOM_NO_ERR \<or> \<not> caseless_isequal node_name ''html'' then
                         (False, h2, ev1 @ ev2 @ [Content_broadcast_error NSERROR_DOM])
                       else
                         (case begin_conversion_forms env h2 (html_forms_get_forms env h2) of
                            (e, fs) \<Rightarrow>
                              if e \<noteq> NSERROR_OK then
                                (False, h2\<lparr>forms := fs\<rparr>, ev1 @ ev2 @ [Content_broadcast_error e])
                              else
                                (let h3 = h2\<lparr>forms := fs\<rparr> in
                                 if active (base h3) = 0 then
                                   (let (h4, ev4) = html_finish_conversion env h3
                                    in (True, h4, ev1 @ ev2 @ ev4))
                                 else (True, h3, ev1 @ ev2))))))"

text \<open>
  After the parse is complete: the guard is asked again, then the aborted flag decides.
\<close>

definition begin_conversion_guarded :: "env \<Rightarrow> html_content \<Rightarrow> bool \<times> html_content \<times> event list" where
  "begin_conversion_guarded env h =
     (if html_can_begin_conversion h = False then (True, h, [])
      else if aborted h then
        (False, h\<lparr>base := content_set_error (base h)\<rparr>, [Content_broadcast_error NSERROR_STOPPED])
      else begin_conversion_proper env h)"

definition html_begin_conversion :: "env \<Rightarrow> html_content \<Rightarrow> bool \<times> html_content \<times> event list" where
  "html_begin_conversion env htmlc =
     (if parse_completed htmlc = False then
        (case dom_hubbub_parser_completed env htmlc of
           (error, h) \<Rightarrow>
             if error = DOM_HUBBUB_HUBBUB_ERR_PAUSED \<and> active (base h) > 0 then
               (True, h, [Parser_completed])
             else if error \<noteq> DOM_HUBBUB_OK then
               (False, h,
                [Parser_completed,
                 Content_broadcast_error (libdom_hubbub_error_to_nserror env error)])
             else
               (let (r, h', ev) = begin_conversion_guarded env (h\<lparr>parse_completed := True\<rparr>)
                in (r, h', Parser_completed # ev)))
      else begin_conversion_guarded env htmlc)"


section \<open>Feeding the parser\<close>

text \<open>
  The end of \<open>html_process_encoding_change\<close>: the whole source that the content has
  kept is given to the new parser.
\<close>

definition reparse_source ::
    "env \<Rightarrow> html_content \<Rightarrow> event list \<Rightarrow> nserror \<times> html_content \<times> event list" where
  "reparse_source env h ev =
     (case dom_hubbub_parser_parse_chunk env h (source_data (base h)) of
        (error, h') \<Rightarrow>
          (libdom_hubbub_error_to_nserror env error, h',
           ev @ [Parser_parse_chunk (source_data (base h))]))"

text \<open>
  \<open>dom_hubbub_parser_create\<close> stores the new parser and document through its out
  parameters only when it succeeds; after a failure the fields of the content are as
  they were.
\<close>

definition html_process_encoding_change ::
    "env \<Rightarrow> html_content \<Rightarrow> nserror \<times> html_content \<times> event list" where
  "html_process_encoding_change env html0 =
     (case dom_hubbub_parser_get_encoding env html0 of
        (enc, src) \<Rightarrow>
          (let html = html0\<lparr>encoding_source := src\<rparr>; ev0 = [Parser_get_encoding] in
           case enc of
             None \<Rightarrow> (NSERROR_NOMEM, html, ev0)
           | Some e \<Rightarrow>
               (case strdup env e of
                  None \<Rightarrow> (NSERROR_NOMEM, html\<lparr>encoding := None\<rparr>, ev0)
                | Some e' \<Rightarrow>
                    (let h1 = html\<lparr>encoding := Some e', parser := None\<rparr>;
                         ev1 = ev0 @ [Parser_destroy]
                               @ (if document h1 \<noteq> None then [Document_unref] else [])
                               @ [Parser_create (Some e')]
                     in case dom_hubbub_parser_create env (Some e') of
                          (error, p, d) \<Rightarrow>
                            if error \<noteq> DOM_HUBBUB_OK then
                              (case strdup env ''Windows-1252'' of
                                 None \<Rightarrow> (NSERROR_NOMEM, h1\<lparr>encoding := None\<rparr>, ev1)
                               | Some w \<Rightarrow>
                                   (let h2 = h1\<lparr>encoding := Some w\<rparr>;
                                        ev2 = ev1 @ [Parser_create (Some w)]
                                    in case dom_hubbub_parser_create env (Some w) of
                                         (error', p', d') \<Rightarrow>
                                           if error' \<noteq> DOM_HUBBUB_OK then
                                             (libdom_hubbub_error_to_nserror env error', h2, ev2)
                                           else
                                             reparse_source env
                                               (h2\<lparr>parser := Some p', document := Some d'\<rparr>) ev2))
                            else reparse_source env (h1\<lparr>parser := Some p, document := Some d\<rparr>) ev1))))"

definition html_process_data ::
    "env \<Rightarrow> html_content \<Rightarrow> string \<Rightarrow> bool \<times> html_content \<times> event list" where
  "html_process_data env c data =
     (case dom_hubbub_parser_parse_chunk env c data of
        (dom_ret, h) \<Rightarrow>
          (let err0 = libdom_hubbub_error_to_nserror env dom_ret;
               (err, h1, ev1) =
                 (if err0 = NSERROR_ENCODING_CHANGE then html_process_encoding_change env h
                  else (err0, h, []))
           in if err \<noteq> NSERROR_OK
              then (False, h1, [Parser_parse_chunk data] @ ev1 @ [Content_broadcast_error err])
              else (True, h1, [Parser_parse_chunk data] @ ev1)))"

section \<open>Running a script through the document\<close>

text \<open>
  The libdom operations that \<open>html_exec\<close> uses, on the document tree. A new node has no
  parent and no children; appending a node takes it away from its former parent first.
  Reference counts are left out: a node that no tree holds any more stays in the store,
  out of reach. \<open>dom_html_document_get_body\<close>, where it does not fail, hands out the
  body element \<open>body\<close> of the document.
\<close>

definition dom_document_create_text_node :: "dom_document \<Rightarrow> string \<Rightarrow> dom_document \<times> nat" where
  "dom_document_create_text_node doc s =
     (let n = next_node doc in
      (doc\<lparr>next_node := Suc n,
           parent_node := (parent_node doc)(n := None),
           child_nodes := (child_nodes doc)(n := []),
           text_of := (text_of doc)(n := Some s)\<rparr>, n))"

definition dom_document_create_element :: "dom_document \<Rightarrow> string \<Rightarrow> dom_document \<times> nat" where
  "dom_document_create_element doc name =
     (let n = next_node doc in
      (doc\<lparr>next_node := Suc n,
           parent_node := (parent_node doc)(n := None),
           child_nodes := (child_nodes doc)(n := []),
           element_name := (element_name doc)(n := Some name)\<rparr>, n))"

definition dom_node_remove_child :: "dom_document \<Rightarrow> nat \<Rightarrow> nat \<Rightarrow> dom_document" where
  "dom_node_remove_child doc parent child =
     doc\<lparr>child_nodes := (child_nodes doc)(parent := removeAll child (child_nodes doc parent)),
         parent_node := (parent_node doc)(child := None)\<rparr>"

definition dom_node_append_child :: "dom_document \<Rightarrow> nat \<Rightarrow> nat \<Rightarrow> dom_document" where
  "dom_node_append_child doc parent child =
     (let doc1 = (case parent_node doc child of
                    None \<Rightarrow> doc
                  | Some old \<Rightarrow> dom_node_remove_child doc old child)
      in doc1\<lparr>child_nodes := (child_nodes doc1)(parent := child_nodes doc1 parent @ [child]),
              parent_node := (parent_node doc1)(child := Some parent)\<rparr>)"

text \<open>
  Which of the DOM calls of \<open>html_exec\<close> fail, one exception code for each call in the
  order of the source, and what the script engine does to the document when the script
  element becomes a child of the body: the document as the script left it, and whether
  the script threw.
\<close>

record exec_env =
  string_create :: dom_exception
  get_body :: dom_exception
  create_text_node :: dom_exception
  create_element :: dom_exception
  append_text :: dom_exception
  append_script :: dom_exception
  get_parent_node :: dom_exception
  remove_child :: dom_exception
  run_script :: "string \<Rightarrow> dom_document \<Rightarrow> dom_document \<times> bool"

text \<open>
  The unwinding at the end of \<open>html_exec\<close>, "removing the script from wherever it
  ended up parented".
\<close>

definition html_exec_unwind :: "exec_env \<Rightarrow> dom_document \<Rightarrow> nat \<Rightarrow> dom_document" where
  "html_exec_unwind x doc script_node =
     (if get_parent_node x = DOM_NO_ERR then
        (case parent_node doc script_node of
           None \<Rightarrow> doc
         | Some spare_node \<Rightarrow>
             if remove_child x = DOM_NO_ERR
             then dom_node_remove_child doc spare_node script_node
             else doc)
      else doc)"

definition html_exec :: "exec_env \<Rightarrow> html_content \<Rightarrow> string \<Rightarrow> bool \<times> html_content" where
  "html_exec x htmlc src =
     (case document htmlc of
        None \<Rightarrow> (False, htmlc)
      | Some doc \<Rightarrow>
          if string_create x \<noteq> DOM_NO_ERR then (False, htmlc)
          else if get_body x \<noteq> DOM_NO_ERR then (False, htmlc)
          else if create_text_node x \<noteq> DOM_NO_ERR then (False, htmlc)
          else
            (let body_node = body doc;
                 (doc1, text_node) = dom_document_create_text_node doc src
             in if create_element x \<noteq> DOM_NO_ERR then (False, htmlc\<lparr>document := Some doc1\<rparr>)
                else
                  (let (doc2, script_node) = dom_document_create_element doc1 ''SCRIPT'' in
                   if append_text x \<noteq> DOM_NO_ERR then (False, htmlc\<lparr>document := Some doc2\<rparr>)
                   else
                     (let doc3 = dom_node_append_child doc2 script_node text_node in
                      if append_script x \<noteq> DOM_NO_ERR
                      then (False, htmlc\<lparr>document := Some doc3\<rparr>)
                      else
                        (let doc4 = dom_node_append_child doc3 body_node script_node;
                             doc5 = fst (run_script x src doc4)
                         in (True,
                             htmlc\<lparr>document := Some (html_exec_unwind x doc5 script_node)\<rparr>))))))"

section \<open>A concrete content and concrete collaborators\<close>

text \<open>
  A small document (the root element 1 with the body 2, which has the child 3), a content
  that has just been created for it, and collaborators that always succeed: white space
  as \<open>ascii_is_space\<close> knows it, a 64-bit \<open>long\<close>, URL joining by appending to the
  base. The examples below are run on them.
\<close>

definition doc0 :: dom_document where
  "doc0 = \<lparr>next_node = 4,
           parent_node = (\<lambda>_. None)(2 := Some 1, 3 := Some 2),
           child_nodes = (\<lambda>_. [])(1 := [2], 2 := [3]),
           text_of = (\<lambda>_. None),
           element_name = (\<lambda>_. None)(1 := Some ''HTML'', 2 := Some ''BODY'', 3 := Some ''P''),
           body = 2\<rparr>"

definition content0 :: content where
  "content0 = \<lparr>status = CONTENT_STATUS_LOADING, active = 0, url = ''http://x/y/'',
               content_refresh = None, source_data = ''<html><body><p></p></body></html>''\<rparr>"

definition htmlc0 :: html_content where
  "htmlc0 = \<lparr>base = content0, parser = Some 0, parse_completed = False,
             conversion_begun = False, document = Some doc0, encoding = None,
             encoding_source = 0, base_url = Some ''http://x/y/'', base_target = None,
             aborted = False, refresh = False, title = None, stylesheets = [],
             select_ctx = None, forms = [], jsthread = None, enable_scripting = False,
             box_conversion_context = None\<rparr>"

definition to_nserror0 :: "dom_hubbub_error \<Rightarrow> nserror" where
  "to_nserror0 e =
     (case e of
        DOM_HUBBUB_OK \<Rightarrow> NSERROR_OK
      | DOM_HUBBUB_HUBBUB_ERR_PAUSED \<Rightarrow> NSERROR_OK
      | DOM_HUBBUB_NOMEM \<Rightarrow> NSERROR_NOMEM
      | DOM_HUBBUB_BADPARM \<Rightarrow> NSERROR_BAD_PARAMETER
      | DOM_HUBBUB_DOM \<Rightarrow> NSERROR_DOM
      | DOM_HUBBUB_HUBBUB_ERR_ENCODINGCHANGE \<Rightarrow> NSERROR_ENCODING_CHANGE
      | _ \<Rightarrow> NSERROR_UNKNOWN)"

definition env0 :: env where
  "env0 = \<lparr>ascii_is_space = (\<lambda>c. c = CHR 0x20 \<or> c = CHR 0x09 \<or> c = CHR 0x0A
                                 \<or> c = CHR 0x0B \<or> c = CHR 0x0C \<or> c = CHR 0x0D),
           LONG_MAX = 9223372036854775807,
           alloc_fails = (\<lambda>_. False),
           nsurl_create = (\<lambda>s. if s = [] then (NSERROR_BAD_URL, []) else (NSERROR_OK, s)),
           nsurl_join = (\<lambda>b s. case b of None \<Rightarrow> (NSERROR_BAD_PARAMETER, [])
                                 | Some b' \<Rightarrow> (NSERROR_OK, b' @ s)),
           libdom_hubbub_error_to_nserror = to_nserror0,
           dom_hubbub_parser_completed = (\<lambda>h. (DOM_HUBBUB_OK, h)),
           dom_hubbub_parser_parse_chunk = (\<lambda>h d. (DOM_HUBBUB_OK, h)),
           dom_hubbub_parser_get_encoding = (\<lambda>h. (Some ''UTF-8'', 1)),
           dom_hubbub_parser_create = (\<lambda>enc. (DOM_HUBBUB_OK, 1, doc0)),
           html_script_exec = (\<lambda>h. h),
           dom_document_get_document_element = (\<lambda>h. (DOM_NO_ERR, Some 1)),
           dom_node_get_node_name = (\<lambda>n. (DOM_NO_ERR, Some ''HTML'')),
           html_forms_get_forms = (\<lambda>h. []),
           html_css_new_selection_context = (\<lambda>h. (NSERROR_OK, 7)),
           dom_to_box = (\<lambda>h. (NSERROR_OK, Some 9)),
           imagemap_extract = (\<lambda>h. NSERROR_OK),
           getthread_listener = (\<lambda>h. None),
           html_css_process_link = (\<lambda>h n. h),
           html_process_link = (\<lambda>h n. h),
           html_process_img = (\<lambda>h n. h),
           html_css_process_style = (\<lambda>h n. h),
           dom_SCRIPT_showed_up = (\<lambda>h n. h)\<rparr>"

text \<open>An element with the given tag and attributes, as libdom presents it.\<close>

definition element :: "dom_html_element_type \<Rightarrow> (string \<times> string) list \<Rightarrow> dom_node" where
  "element t attrs =
     \<lparr>node_type = (DOM_NO_ERR, DOM_ELEMENT_NODE),
      tag_type = (DOM_NO_ERR, t),
      attribute = (\<lambda>name. (DOM_NO_ERR, map_of attrs name))\<rparr>"

definition inserted :: "dom_node \<Rightarrow> dom_event" where
  "inserted n = \<lparr>target = (DOM_NO_ERR, Some n)\<rparr>"

section \<open>What the properties say, in their own words\<close>

text \<open>
  The URL that a base element offers: its href, if libdom hands it out and
  \<open>nsurl_create\<close> accepts it. The target that a base element offers: its target
  attribute, if libdom hands it out and it passes the test of \<open>html_process_base\<close>.
\<close>

definition base_href_url :: "env \<Rightarrow> dom_node \<Rightarrow> nsurl option" where
  "base_href_url env node =
     (case attribute node ''href'' of
        (exc, None) \<Rightarrow> None
      | (exc, Some s) \<Rightarrow>
          if exc = DOM_NO_ERR \<and> fst (nsurl_create env s) = NSERROR_OK
          then Some (snd (nsurl_create env s))
          else None)"

definition base_target_accepted :: "dom_node \<Rightarrow> string option" where
  "base_target_accepted node =
     (case attribute node ''target'' of
        (exc, None) \<Rightarrow> None
      | (exc, Some t) \<Rightarrow> if exc = DOM_NO_ERR \<and> base_target_valid t then Some t else None)"

text \<open>"The last processed base element's href wins."\<close>

definition last_href_wins :: "env \<Rightarrow> nsurl option \<Rightarrow> dom_node list \<Rightarrow> nsurl option" where
  "last_href_wins env old nodes =
     (case List.map_filter (base_href_url env) nodes of
        [] \<Rightarrow> old
      | u # us \<Rightarrow> Some (last (u # us)))"

text \<open>"The base target is set only once", by the first element that offers one.\<close>

definition first_target_wins :: "string option \<Rightarrow> dom_node list \<Rightarrow> string option" where
  "first_target_wins old nodes =
     (case old of
        Some t \<Rightarrow> Some t
      | None \<Rightarrow>
          (case List.map_filter base_target_accepted nodes of
             [] \<Rightarrow> None
           | t # _ \<Rightarrow> Some t))"

text \<open>"First non-empty valid target wins": empty targets are passed over.\<close>

definition base_target_nonempty :: "dom_node \<Rightarrow> string option" where
  "base_target_nonempty node =
     (case base_target_accepted node of
        Some t \<Rightarrow> if t \<noteq> [] then Some t else None
      | None \<Rightarrow> None)"

definition first_nonempty_target_wins :: "string option \<Rightarrow> dom_node list \<Rightarrow> string option" where
  "first_nonempty_target_wins old nodes =
     (case old of
        Some t \<Rightarrow> Some t
      | None \<Rightarrow>
          (case List.map_filter base_target_nonempty nodes of
             [] \<Rightarrow> None
           | t # _ \<Rightarrow> Some t))"

text \<open>
  "The first non-whitespace character" of the content attribute, and "the parsed
  integer": the number written by the digits that follow the leading white space.
\<close>

definition first_non_space :: "env \<Rightarrow> string \<Rightarrow> char option" where
  "first_non_space env s =
     (case dropWhile (ascii_is_space env) s of [] \<Rightarrow> None | ch # _ \<Rightarrow> Some ch)"

definition parsed_delay :: "env \<Rightarrow> string \<Rightarrow> int" where
  "parsed_delay env s = decimal_value (takeWhile is_digit (dropWhile (ascii_is_space env) s))"

text \<open>
  The delay that the code makes of the number \<open>v\<close> that the digits denote: \<open>strtol\<close>
  saturates, the cast to \<open>int\<close> truncates, and anything below 1 becomes 1.
\<close>

definition refresh_delay :: "env \<Rightarrow> int \<Rightarrow> int" where
  "refresh_delay env v =
     (let d = int_of_long (min v (LONG_MAX env)) in if d < 1 then 1 else d)"

text \<open>
  "The attribute ends after the delay and optional separators": white space, digits, an
  optional fraction, white space, an optional semicolon, white space, and nothing more.
\<close>

definition delay_only ::
    "env \<Rightarrow> string \<Rightarrow> string \<Rightarrow> string \<Rightarrow> string \<Rightarrow> string \<Rightarrow> string \<Rightarrow> bool" where
  "delay_only env ws1 ds fs ws2 sep ws3 =
     (list_all (ascii_is_space env) ws1
      \<and> ds \<noteq> [] \<and> list_all is_digit ds
      \<and> (fs = [] \<or> hd fs = CHR ''.'' \<and> list_all (\<lambda>x. is_digit x \<or> x = CHR ''.'') fs)
      \<and> list_all (ascii_is_space env) ws2
      \<and> (sep = [] \<or> sep = '';'')
      \<and> list_all (ascii_is_space env) ws3)"

text \<open>"Nothing is broadcast, or one refresh request with the delay \<open>d\<close>."\<close>

definition refresh_events :: "int \<Rightarrow> event list \<Rightarrow> bool" where
  "refresh_events d evs = (evs = [] \<or> evs = [Content_broadcast (CONTENT_MSG_REFRESH d)])"

text \<open>
  What a restart of the parser consists of, in the order of the calls: the encoding is
  asked for, the parser is destroyed, the document is released, and parsers are created
  with the encodings \<open>encs\<close>, one after the other.
\<close>

definition restart_events :: "html_content \<Rightarrow> string list \<Rightarrow> event list" where
  "restart_events h encs =
     [Parser_get_encoding, Parser_destroy]
     @ (if document h \<noteq> None then [Document_unref] else [])
     @ map (\<lambda>enc. Parser_create (Some enc)) encs"

text \<open>
  The document with the transient script element in place, as the script engine finds
  it: a new text node with the source, a new \<open>SCRIPT\<close> element that holds the text
  node, and the element appended to the body.
\<close>

definition script_attached :: "dom_document \<Rightarrow> string \<Rightarrow> dom_document" where
  "script_attached doc src =
     (let (doc1, text_node) = dom_document_create_text_node doc src;
          (doc2, script_node) = dom_document_create_element doc1 ''SCRIPT''
      in dom_node_append_child (dom_node_append_child doc2 script_node text_node)
           (body doc) script_node)"

text \<open>A script engine that throws and leaves the document alone, with a libdom that succeeds.\<close>

definition exec_env0 :: exec_env where
  "exec_env0 = \<lparr>string_create = DOM_NO_ERR, get_body = DOM_NO_ERR,
                create_text_node = DOM_NO_ERR, create_element = DOM_NO_ERR,
                append_text = DOM_NO_ERR, append_script = DOM_NO_ERR,
                get_parent_node = DOM_NO_ERR, remove_child = DOM_NO_ERR,
                run_script = (\<lambda>src doc. (doc, True))\<rparr>"

text \<open>"The body's child list" of the document of a content.\<close>

definition body_children :: "html_content \<Rightarrow> nat list" where
  "body_children htmlc =
     (case document htmlc of None \<Rightarrow> [] | Some d \<Rightarrow> child_nodes d (body d))"

text \<open>A script that appends a new \<open>P\<close> element to the body, and does not throw.\<close>

definition script_appends_p :: "string \<Rightarrow> dom_document \<Rightarrow> dom_document \<times> bool" where
  "script_appends_p src d =
     (case dom_document_create_element d ''P'' of
        (d1, p) \<Rightarrow> (dom_node_append_child d1 (body d1) p, False))"

section \<open>Properties of the conversion guard\<close>

lemma stylesheets_unmodified_iff:
  "stylesheets_unmodified ss = (\<forall>s\<in>set ss. \<not> modified s)"
  by (induction ss) auto

text \<open>
  C1. \<open>html_can_begin_conversion\<close> answers true exactly when the active-fetch counter
  \<open>base.active\<close> is zero and no stylesheet descriptor of the array has its modified
  flag set. The check writes to nothing: it is a function of the content alone, and a
  caller that is turned away, \<open>html_begin_conversion\<close> after the parse is complete,
  hands the content back as it got it and has broadcast nothing.
\<close>

theorem html_can_begin_conversion_iff:
  "html_can_begin_conversion htmlc =
     (active (base htmlc) = 0 \<and> (\<forall>s\<in>set (stylesheets htmlc). \<not> modified s))
   \<and> (parse_completed htmlc \<and> \<not> html_can_begin_conversion htmlc
        \<longrightarrow> html_begin_conversion env htmlc = (True, htmlc, []))"
  by (simp add: html_can_begin_conversion_def stylesheets_unmodified_iff
        html_begin_conversion_def begin_conversion_guarded_def)

theorem html_can_begin_conversion_iff_witness:
  "\<not> html_can_begin_conversion (htmlc0\<lparr>base := content0\<lparr>active := 2\<rparr>\<rparr>)
   \<and> \<not> html_can_begin_conversion (htmlc0\<lparr>base := content0\<lparr>active := 1\<rparr>\<rparr>)
   \<and> \<not> html_can_begin_conversion
         (htmlc0\<lparr>stylesheets := [\<lparr>sheet = Some 1, modified = True\<rparr>]\<rparr>)
   \<and> html_can_begin_conversion
         (htmlc0\<lparr>stylesheets := [\<lparr>sheet = Some 1, modified = False\<rparr>]\<rparr>)
   \<and> html_begin_conversion env0
         (htmlc0\<lparr>parse_completed := True,
                 stylesheets := [\<lparr>sheet = Some 1, modified = True\<rparr>]\<rparr>)
       = (True,
          htmlc0\<lparr>parse_completed := True,
                 stylesheets := [\<lparr>sheet = Some 1, modified = True\<rparr>]\<rparr>, [])"
  using html_can_begin_conversion_iff [of "htmlc0\<lparr>base := content0\<lparr>active := 2\<rparr>\<rparr>" env0]
        html_can_begin_conversion_iff [of "htmlc0\<lparr>base := content0\<lparr>active := 1\<rparr>\<rparr>" env0]
        html_can_begin_conversion_iff
          [of "htmlc0\<lparr>stylesheets := [\<lparr>sheet = Some 1, modified = True\<rparr>]\<rparr>" env0]
        html_can_begin_conversion_iff
          [of "htmlc0\<lparr>stylesheets := [\<lparr>sheet = Some 1, modified = False\<rparr>]\<rparr>" env0]
        html_can_begin_conversion_iff
          [of "htmlc0\<lparr>parse_completed := True,
                      stylesheets := [\<lparr>sheet = Some 1, modified = True\<rparr>]\<rparr>" env0]
  by (simp add: htmlc0_def content0_def)

section \<open>Properties of the base element\<close>

lemma base_target_update_same:
  "base_target c = t \<Longrightarrow> c\<lparr>base_target := t\<rparr> = (c::html_content)"
  by (cases c) simp

text \<open>
  C10. \<open>html_process_base\<close> always returns true. When the href attribute of the base
  element is absent, cannot be read or is not accepted by \<open>nsurl_create\<close>, the base URL
  of the content stays what it was and nothing but the base target can have changed: the
  target attribute is still looked at, and stored if no target was stored before and it
  passes the test.
\<close>

theorem html_process_base_total:
  "fst (html_process_base env c node) = True
   \<and> ((\<forall>s. attribute node ''href'' = (DOM_NO_ERR, Some s)
             \<longrightarrow> fst (nsurl_create env s) \<noteq> NSERROR_OK)
        \<longrightarrow> base_url (snd (html_process_base env c node)) = base_url c
          \<and> snd (html_process_base env c node)
              = c\<lparr>base_target :=
                    (if base_target c \<noteq> None then base_target c
                     else case base_target_accepted node of
                            None \<Rightarrow> None
                          | Some t \<Rightarrow> strdup env t)\<rparr>)"
proof -
  have r: "fst (html_process_base env c node) = True"
    by (simp add: html_process_base_def Let_def split: prod.splits option.splits)
  have s: "snd (html_process_base env c node)
              = c\<lparr>base_target :=
                    (if base_target c \<noteq> None then base_target c
                     else case base_target_accepted node of
                            None \<Rightarrow> None
                          | Some t \<Rightarrow> strdup env t)\<rparr>"
    if h: "\<forall>s. attribute node ''href'' = (DOM_NO_ERR, Some s)
               \<longrightarrow> fst (nsurl_create env s) \<noteq> NSERROR_OK"
  proof -
    have c1: "(case attribute node ''href'' of
                  (exc, None) \<Rightarrow> c
                | (exc, Some atr_string) \<Rightarrow>
                    if exc = DOM_NO_ERR then
                      (case nsurl_create env atr_string of
                         (error, u) \<Rightarrow> if error = NSERROR_OK then c\<lparr>base_url := Some u\<rparr> else c)
                    else c) = c"
      using h by (auto split: prod.splits option.splits)
    show ?thesis
      unfolding html_process_base_def c1 Let_def
      by (auto simp: base_target_update_same base_target_accepted_def
            split: prod.splits option.splits)
  qed
  from r s show ?thesis by simp
qed

theorem html_process_base_total_witness:
  "attribute (element DOM_HTML_ELEMENT_TYPE_BASE [(''href'', []), (''target'', ''_blank'')])
       ''href'' = (DOM_NO_ERR, Some [])
   \<and> fst (nsurl_create env0 []) \<noteq> NSERROR_OK
   \<and> html_process_base env0 htmlc0
         (element DOM_HTML_ELEMENT_TYPE_BASE [(''href'', []), (''target'', ''_blank'')])
       = (True, htmlc0\<lparr>base_target := Some ''_blank''\<rparr>)
   \<and> base_url (htmlc0\<lparr>base_target := Some ''_blank''\<rparr>) = Some ''http://x/y/''"
proof -
  let ?n = "element DOM_HTML_ELEMENT_TYPE_BASE [(''href'', []), (''target'', ''_blank'')]"
  have a: "attribute ?n ''href'' = (DOM_NO_ERR, Some [])"
    "fst (nsurl_create env0 []) \<noteq> NSERROR_OK"
    by (simp_all add: element_def env0_def)
  then have h: "\<forall>s. attribute ?n ''href'' = (DOM_NO_ERR, Some s)
              \<longrightarrow> fst (nsurl_create env0 s) \<noteq> NSERROR_OK"
    by simp
  have t: "base_target htmlc0 = None" "base_target_accepted ?n = Some ''_blank''"
    "strdup env0 ''_blank'' = Some ''_blank''" "base_url htmlc0 = Some ''http://x/y/''"
    by (simp_all add: htmlc0_def element_def base_target_accepted_def base_target_valid_def
          caseless_isequal_def strdup_def env0_def)
  from html_process_base_total [of env0 htmlc0 ?n] h
  have "fst (html_process_base env0 htmlc0 ?n) = True"
    and "snd (html_process_base env0 htmlc0 ?n) = htmlc0\<lparr>base_target := Some ''_blank''\<rparr>"
    by (simp_all add: t)
  then have "html_process_base env0 htmlc0 ?n = (True, htmlc0\<lparr>base_target := Some ''_blank''\<rparr>)"
    by (simp add: prod_eq_iff)
  with a t show ?thesis by simp
qed

lemma html_process_base_base_url:
  "base_url (snd (html_process_base env c n))
     = (case base_href_url env n of Some u \<Rightarrow> Some u | None \<Rightarrow> base_url c)"
  by (auto simp: html_process_base_def base_href_url_def Let_def
        split: prod.splits option.splits)

lemma html_process_base_base_target:
  "\<not> alloc_fails env (case base_target_accepted n of Some t \<Rightarrow> t | None \<Rightarrow> []) \<Longrightarrow>
   base_target (snd (html_process_base env c n))
     = (case base_target c of Some t \<Rightarrow> Some t | None \<Rightarrow> base_target_accepted n)"
  by (auto simp: html_process_base_def base_target_accepted_def Let_def strdup_def
        split: prod.splits option.splits)

lemma html_process_bases_base_url:
  "base_url (html_process_bases env c nodes) = last_href_wins env (base_url c) nodes"
proof (induction nodes arbitrary: c)
  case Nil
  show ?case by (simp add: last_href_wins_def map_filter_simps)
next
  case (Cons n nodes)
  show ?case
    by (simp add: Cons.IH html_process_base_base_url last_href_wins_def map_filter_simps
          split: option.splits list.splits)
qed

lemma html_process_bases_base_target:
  "(\<And>s. \<not> alloc_fails env s) \<Longrightarrow>
   base_target (html_process_bases env c nodes) = first_target_wins (base_target c) nodes"
proof (induction nodes arbitrary: c)
  case Nil
  show ?case by (simp add: first_target_wins_def map_filter_simps split: option.splits)
next
  case (Cons n nodes)
  show ?case
    by (simp add: Cons.IH Cons.prems html_process_base_base_target first_target_wins_def
          map_filter_simps split: option.splits list.splits)
qed

text \<open>
  What the code does with a sequence of base elements, as long as \<open>strdup\<close> succeeds:
  the last href that \<open>nsurl_create\<close> accepts is the base URL, and the first target that
  passes the test of \<open>html_process_base\<close> is the base target.
\<close>

lemma html_process_bases_last_href_first_accepted_target:
  assumes "\<And>s. \<not> alloc_fails env s"
  shows "base_url (html_process_bases env c nodes) = last_href_wins env (base_url c) nodes
         \<and> base_target (html_process_bases env c nodes)
             = first_target_wins (base_target c) nodes"
  using assms by (simp add: html_process_bases_base_url html_process_bases_base_target)

lemma map_filter_base_target_nonempty:
  "\<forall>n\<in>set nodes. base_target_accepted n \<noteq> Some [] \<Longrightarrow>
   List.map_filter base_target_nonempty nodes = List.map_filter base_target_accepted nodes"
  by (induction nodes) (auto simp: map_filter_simps base_target_nonempty_def split: option.splits)

text \<open>
  Where no base element offers the empty target, the code does what is said of it: the
  first non-empty valid target wins.
\<close>

lemma html_process_bases_first_nonempty_target:
  assumes "\<And>s. \<not> alloc_fails env s"
    and "\<forall>n\<in>set nodes. base_target_accepted n \<noteq> Some []"
  shows "base_target (html_process_bases env c nodes)
           = first_nonempty_target_wins (base_target c) nodes"
proof -
  have "List.map_filter base_target_nonempty nodes = List.map_filter base_target_accepted nodes"
    using assms(2) by (rule map_filter_base_target_nonempty)
  then have "first_nonempty_target_wins (base_target c) nodes
               = first_target_wins (base_target c) nodes"
    by (simp only: first_nonempty_target_wins_def first_target_wins_def)
  with assms(1) show ?thesis
    by (simp add: html_process_bases_base_target)
qed

text \<open>
  C6 says that every base element whose href parses overwrites the base URL, so that the
  last one wins, while the base target is stored only by the first base element that
  carries a valid non-empty target. The comment in \<open>html_process_base\<close> gives the rule
  for a valid target: one of \<open>_blank\<close>, \<open>_self\<close>, \<open>_parent\<close>, \<open>_top\<close>, or an identifier
  that does not begin with an underscore. The test reads the first byte of the attribute,
  which for the empty string is the terminator and not an underscore: the empty target
  passes, is stored, and from then on every target is ignored. On two base elements with
  the hrefs \<open>/a/\<close> and \<open>/b/\<close> and the targets \<open>_self\<close> and \<open>_blank\<close> the base URL is
  \<open>/b/\<close> and the base target \<open>_self\<close>, as C6 says; on a base element with an empty
  target followed by one with the target \<open>_self\<close> the base target is the empty string,
  where C6 has \<open>_self\<close>.
\<close>

theorem html_process_bases_empty_target_stored:
  "base_url (html_process_bases env0 htmlc0
        [element DOM_HTML_ELEMENT_TYPE_BASE [(''href'', ''/a/''), (''target'', ''_self'')],
         element DOM_HTML_ELEMENT_TYPE_BASE [(''href'', ''/b/''), (''target'', ''_blank'')]])
     = Some ''/b/''
   \<and> base_target (html_process_bases env0 htmlc0
        [element DOM_HTML_ELEMENT_TYPE_BASE [(''href'', ''/a/''), (''target'', ''_self'')],
         element DOM_HTML_ELEMENT_TYPE_BASE [(''href'', ''/b/''), (''target'', ''_blank'')]])
     = Some ''_self''
   \<and> base_target (html_process_bases env0 htmlc0
        [element DOM_HTML_ELEMENT_TYPE_BASE [(''target'', [])],
         element DOM_HTML_ELEMENT_TYPE_BASE [(''target'', ''_self'')]])
     = Some []
   \<and> first_nonempty_target_wins (base_target htmlc0)
        [element DOM_HTML_ELEMENT_TYPE_BASE [(''target'', [])],
         element DOM_HTML_ELEMENT_TYPE_BASE [(''target'', ''_self'')]]
     = Some ''_self''"
  by (simp add: html_process_base_def first_nonempty_target_wins_def map_filter_simps
        base_target_nonempty_def base_target_accepted_def base_target_valid_def
        caseless_isequal_def element_def env0_def htmlc0_def strdup_def)

section \<open>Properties of the meta refresh directive\<close>

lemma digit_val_nonneg: "is_digit c \<Longrightarrow> 0 \<le> digit_val c"
  by (simp add: is_digit_def digit_val_def Let_def)

lemma decimal_value_nonneg: "list_all is_digit ds \<Longrightarrow> 0 \<le> decimal_value ds"
proof (induction ds rule: rev_induct)
  case Nil
  show ?case by (simp add: decimal_value_def)
next
  case (snoc x xs)
  then have "0 \<le> decimal_value xs" "0 \<le> digit_val x"
    by (simp_all add: digit_val_nonneg)
  then show ?case by (simp add: decimal_value_def)
qed

lemma parsed_delay_nonneg: "0 \<le> parsed_delay env s"
  unfolding parsed_delay_def
proof (rule decimal_value_nonneg)
  show "list_all is_digit (takeWhile is_digit (dropWhile (ascii_is_space env) s))"
    unfolding list_all_iff using set_takeWhileD by fastforce
qed

lemma int_of_long_id: "0 \<le> v \<Longrightarrow> v \<le> 2147483647 \<Longrightarrow> int_of_long v = v"
  by (simp add: int_of_long_def)

lemma refresh_delay_fits:
  "0 \<le> v \<Longrightarrow> v \<le> 2147483647 \<Longrightarrow> 2147483647 \<le> LONG_MAX env
   \<Longrightarrow> refresh_delay env v = max 1 v"
  by (simp add: refresh_delay_def Let_def int_of_long_id min_def max_def)

lemma html_meta_refresh_process_element_content:
  "attribute n ''http-equiv'' = (DOM_NO_ERR, Some e) \<Longrightarrow> caseless_isequal e ''refresh''
   \<Longrightarrow> attribute n ''content'' = (DOM_NO_ERR, Some s)
   \<Longrightarrow> html_meta_refresh_process_element env c n = meta_refresh_content env c s"
  by (simp add: html_meta_refresh_process_element_def)

lemma meta_refresh_join_events: "refresh_events d (snd (snd (meta_refresh_join env c d u)))"
  by (simp add: meta_refresh_join_def refresh_events_def split: option.splits prod.splits nserror.splits)

lemma refresh_events_Nil: "refresh_events d []"
  by (simp add: refresh_events_def)

lemma refresh_events_one: "refresh_events d [Content_broadcast (CONTENT_MSG_REFRESH d)]"
  by (simp add: refresh_events_def)

lemma meta_refresh_url_part_events: "refresh_events d (snd (snd (meta_refresh_url_part env c d u)))"
  by (simp add: meta_refresh_url_part_def Let_def meta_refresh_join_events refresh_events_Nil split: list.split)

lemma meta_refresh_after_delay_events: "refresh_events d (snd (snd (meta_refresh_after_delay env c d u)))"
  by (simp add: meta_refresh_after_delay_def Let_def meta_refresh_url_part_events refresh_events_one)

lemma meta_refresh_content_ignored:
  "(\<forall>ch. first_non_space env s = Some ch \<longrightarrow> \<not> is_digit ch) \<Longrightarrow>
   meta_refresh_content env c s = (NSERROR_OK, c, [])"
  by (simp add: meta_refresh_content_def first_non_space_def Let_def split: list.splits)

lemma meta_refresh_content_digit:
  "dropWhile (ascii_is_space env) s = ch # r \<Longrightarrow> is_digit ch \<Longrightarrow>
   meta_refresh_content env c s
     = meta_refresh_after_delay env c (refresh_delay env (parsed_delay env s))
         (dropWhile is_digit (dropWhile (ascii_is_space env) s))"
  by (simp add: meta_refresh_content_def Let_def strtol_def parsed_delay_def refresh_delay_def)

lemma meta_refresh_content_events:
  "refresh_events (refresh_delay env (parsed_delay env s)) (snd (snd (meta_refresh_content env c s)))"
proof (cases "\<forall>ch. first_non_space env s = Some ch \<longrightarrow> \<not> is_digit ch")
  case True
  then show ?thesis by (simp add: meta_refresh_content_ignored refresh_events_Nil)
next
  case False
  then obtain ch r where "dropWhile (ascii_is_space env) s = ch # r" "is_digit ch"
    by (auto simp: first_non_space_def split: list.splits)
  then show ?thesis by (simp add: meta_refresh_content_digit meta_refresh_after_delay_events)
qed

lemma dropWhile_all: "list_all P xs \<Longrightarrow> dropWhile P (xs @ ys) = dropWhile P ys"
  by (induction xs) simp_all

lemma takeWhile_all: "list_all P xs \<Longrightarrow> takeWhile P (xs @ ys) = xs @ takeWhile P ys"
  by (induction xs) simp_all

lemma dropWhile_stop: "ys = [] \<or> \<not> P (hd ys) \<Longrightarrow> dropWhile P ys = ys"
  by (cases ys) auto

lemma takeWhile_stop: "ys = [] \<or> \<not> P (hd ys) \<Longrightarrow> takeWhile P ys = []"
  by (cases ys) auto

lemma separators_end:
  assumes "list_all sp ws2" "sep = [] \<or> sep = '';''" "list_all sp ws3"
    and r: "r = dropWhile sp (ws2 @ sep @ ws3)"
  shows "dropWhile sp (case r of [] \<Rightarrow> r | x # t \<Rightarrow> if x = CHR '';'' then t else r) = []"
proof -
  have a: "r = dropWhile sp (sep @ ws3)"
    using assms(1) r by (simp add: dropWhile_all)
  have b: "dropWhile sp ws3 = []"
    using assms(3) by (simp add: list_all_iff)
  have "r = [] \<or> r = CHR '';'' # ws3"
    using assms(2) a b by (cases "sp (CHR '';'')") auto
  then show ?thesis
    using b by auto
qed

lemma meta_refresh_content_delay_only:
  assumes shape: "delay_only env ws1 ds fs ws2 sep ws3"
    and sp: "\<forall>ch. ascii_is_space env ch \<longrightarrow> \<not> is_digit ch \<and> ch \<noteq> CHR ''.''"
  shows "meta_refresh_content env c (ws1 @ ds @ fs @ ws2 @ sep @ ws3)
           = (NSERROR_OK,
              c\<lparr>base := (base c)\<lparr>content_refresh := Some (url (base c))\<rparr>\<rparr>,
              [Content_broadcast (CONTENT_MSG_REFRESH (refresh_delay env (decimal_value ds)))])"
    and "parsed_delay env (ws1 @ ds @ fs @ ws2 @ sep @ ws3) = decimal_value ds"
proof -
  let ?s = "ws1 @ ds @ fs @ ws2 @ sep @ ws3"
  let ?rest = "ws2 @ sep @ ws3"
  from shape have ws1: "list_all (ascii_is_space env) ws1"
    and ds: "ds \<noteq> []" "list_all is_digit ds"
    and fs: "fs = [] \<or> hd fs = CHR ''.'' \<and> list_all (\<lambda>x. is_digit x \<or> x = CHR ''.'') fs"
    and ws2: "list_all (ascii_is_space env) ws2"
    and sep: "sep = [] \<or> sep = '';''"
    and ws3: "list_all (ascii_is_space env) ws3"
    by (simp_all add: delay_only_def)
  obtain d dr where dd: "ds = d # dr" using ds(1) by (cases ds) auto
  with ds(2) have dig: "is_digit d" by simp
  with sp have nsp: "\<not> ascii_is_space env d" by blast
  have u0: "dropWhile (ascii_is_space env) ?s = ds @ fs @ ?rest"
    using ws1 nsp dd by (simp add: dropWhile_all)
  have rest_hd: "?rest = [] \<or> \<not> (is_digit (hd ?rest) \<or> hd ?rest = CHR ''.'')"
  proof (cases ws2)
    case Nil
    show ?thesis
    proof (cases "sep = []")
      case True
      with Nil show ?thesis using ws3 sp by (cases ws3) auto
    next
      case False
      with sep have "sep = '';''" by simp
      with Nil show ?thesis by (simp add: is_digit_def)
    qed
  next
    case (Cons w ws)
    with ws2 sp show ?thesis by auto
  qed
  have after_hd: "fs @ ?rest = [] \<or> \<not> is_digit (hd (fs @ ?rest))"
  proof (cases "fs = []")
    case True
    with rest_hd show ?thesis by auto
  next
    case False
    with fs have "hd fs = CHR ''.''" by simp
    with False show ?thesis by (simp add: is_digit_def)
  qed
  have tw: "takeWhile is_digit (ds @ fs @ ?rest) = ds"
    using ds(2) after_hd by (simp add: takeWhile_all takeWhile_stop)
  have dw: "dropWhile is_digit (ds @ fs @ ?rest) = fs @ ?rest"
    using ds(2) after_hd by (simp add: dropWhile_all dropWhile_stop)
  show pd: "parsed_delay env ?s = decimal_value ds"
    by (simp only: parsed_delay_def u0 tw)
  have fr: "dropWhile (\<lambda>x. is_digit x \<or> x = CHR ''.'') (fs @ ?rest) = ?rest"
  proof -
    have "list_all (\<lambda>x. is_digit x \<or> x = CHR ''.'') fs" using fs by auto
    then have "dropWhile (\<lambda>x. is_digit x \<or> x = CHR ''.'') (fs @ ?rest)
                 = dropWhile (\<lambda>x. is_digit x \<or> x = CHR ''.'') ?rest"
      by (rule dropWhile_all)
    also have "\<dots> = ?rest" using rest_hd by (rule dropWhile_stop)
    finally show ?thesis .
  qed
  have c: "meta_refresh_content env c ?s
             = meta_refresh_after_delay env c (refresh_delay env (parsed_delay env ?s))
                 (dropWhile is_digit (dropWhile (ascii_is_space env) ?s))"
    using u0 dd dig by (intro meta_refresh_content_digit [of env ?s d "dr @ fs @ ?rest"]) simp_all
  have e: "dropWhile (ascii_is_space env)
             (case dropWhile (ascii_is_space env) ?rest of
                [] \<Rightarrow> dropWhile (ascii_is_space env) ?rest
              | x # t \<Rightarrow> if x = CHR '';'' then t else dropWhile (ascii_is_space env) ?rest) = []"
    using ws2 sep ws3 by (rule separators_end) simp
  show "meta_refresh_content env c ?s
           = (NSERROR_OK,
              c\<lparr>base := (base c)\<lparr>content_refresh := Some (url (base c))\<rparr>\<rparr>,
              [Content_broadcast (CONTENT_MSG_REFRESH (refresh_delay env (decimal_value ds)))])"
    unfolding c pd u0 dw meta_refresh_after_delay_def Let_def fr e by simp
qed

lemma meta_refresh_content_example:
  assumes "ascii_is_space env = ascii_is_space env0"
    and "\<not> alloc_fails env ''foo.html''"
    and "2147483647 \<le> LONG_MAX env"
    and "nsurl_join env (base_url c) ''foo.html'' = (NSERROR_OK, t)"
  shows "meta_refresh_content env c ''0; url=foo.html''
           = (NSERROR_OK, c\<lparr>base := (base c)\<lparr>content_refresh := Some t\<rparr>, refresh := True\<rparr>,
              [Content_broadcast (CONTENT_MSG_REFRESH 1)])"
  using assms
  by (simp add: meta_refresh_content_def meta_refresh_after_delay_def meta_refresh_url_part_def
        meta_refresh_join_def strtol_def int_of_long_def decimal_value_def digit_val_def
        is_digit_def caseless_isequal_def strdup_def env0_def Let_def)

text \<open>
  C5, as the code has it. For a meta element whose http-equiv attribute is "refresh"
  and whose content attribute is \<open>s\<close>:
  \<^item> if \<open>s\<close> has no character other than white space, or the first such character is
    not a digit, the element changes nothing and nothing is broadcast;
  \<^item> otherwise at most one refresh request is broadcast, and its delay is what \<open>strtol\<close>,
    the cast to \<open>int\<close> and the lower bound 1 make of the digits; when the number that
    the digits denote fits an \<open>int\<close> (it is at most 2147483647), that is the number itself,
    or 1 if the number is 0;
  \<^item> if the attribute ends after the delay, an optional fraction, white space and an
    optional semicolon, the refresh target is the URL of the document itself and the
    request carries that delay;
  \<^item> \<open>0; url=foo.html\<close>, where the base URL \<open>http://x/y/\<close> joined with \<open>foo.html\<close> is
    \<open>http://x/y/foo.html\<close>, sets that target, with the delay 1.
  White space is taken to be no digit and no full stop, and \<open>LONG_MAX\<close> to be at least
  2147483647.
\<close>

theorem html_meta_refresh_delay_and_target:
  assumes "attribute n ''http-equiv'' = (DOM_NO_ERR, Some e)"
    and "caseless_isequal e ''refresh''"
    and "attribute n ''content'' = (DOM_NO_ERR, Some s)"
    and "\<forall>ch. ascii_is_space env ch \<longrightarrow> \<not> is_digit ch \<and> ch \<noteq> CHR ''.''"
    and "2147483647 \<le> LONG_MAX env"
  shows "((\<forall>ch. first_non_space env s = Some ch \<longrightarrow> \<not> is_digit ch)
            \<longrightarrow> html_meta_refresh_process_element env c n = (NSERROR_OK, c, []))
         \<and> refresh_events (refresh_delay env (parsed_delay env s))
              (snd (snd (html_meta_refresh_process_element env c n)))
         \<and> (parsed_delay env s \<le> 2147483647
              \<longrightarrow> refresh_delay env (parsed_delay env s) = max 1 (parsed_delay env s))
         \<and> (\<forall>ws1 ds fs ws2 sep ws3.
               s = ws1 @ ds @ fs @ ws2 @ sep @ ws3 \<and> delay_only env ws1 ds fs ws2 sep ws3
               \<longrightarrow> parsed_delay env s = decimal_value ds
                 \<and> html_meta_refresh_process_element env c n
                     = (NSERROR_OK,
                        c\<lparr>base := (base c)\<lparr>content_refresh := Some (url (base c))\<rparr>\<rparr>,
                        [Content_broadcast
                           (CONTENT_MSG_REFRESH (refresh_delay env (parsed_delay env s)))]))
         \<and> (s = ''0; url=foo.html'' \<and> ascii_is_space env = ascii_is_space env0
              \<and> \<not> alloc_fails env ''foo.html''
              \<and> base_url c = Some ''http://x/y/''
              \<and> nsurl_join env (Some ''http://x/y/'') ''foo.html''
                  = (NSERROR_OK, ''http://x/y/foo.html'')
              \<longrightarrow> html_meta_refresh_process_element env c n
                    = (NSERROR_OK,
                       c\<lparr>base := (base c)\<lparr>content_refresh := Some ''http://x/y/foo.html''\<rparr>,
                         refresh := True\<rparr>,
                       [Content_broadcast (CONTENT_MSG_REFRESH 1)]))"
proof -
  note el = html_meta_refresh_process_element_content [OF assms(1,2,3)]
  have a: "(\<forall>ch. first_non_space env s = Some ch \<longrightarrow> \<not> is_digit ch)
            \<longrightarrow> html_meta_refresh_process_element env c n = (NSERROR_OK, c, [])"
    by (simp add: el meta_refresh_content_ignored)
  have b: "refresh_events (refresh_delay env (parsed_delay env s))
              (snd (snd (html_meta_refresh_process_element env c n)))"
    by (simp add: el meta_refresh_content_events)
  have b': "parsed_delay env s \<le> 2147483647
              \<longrightarrow> refresh_delay env (parsed_delay env s) = max 1 (parsed_delay env s)"
    using assms(5) by (simp add: refresh_delay_fits parsed_delay_nonneg)
  have c: "\<forall>ws1 ds fs ws2 sep ws3.
               s = ws1 @ ds @ fs @ ws2 @ sep @ ws3 \<and> delay_only env ws1 ds fs ws2 sep ws3
               \<longrightarrow> parsed_delay env s = decimal_value ds
                 \<and> html_meta_refresh_process_element env c n
                     = (NSERROR_OK,
                        c\<lparr>base := (base c)\<lparr>content_refresh := Some (url (base c))\<rparr>\<rparr>,
                        [Content_broadcast
                           (CONTENT_MSG_REFRESH (refresh_delay env (parsed_delay env s)))])"
    using assms(4) by (auto simp: el meta_refresh_content_delay_only)
  have d: "s = ''0; url=foo.html'' \<and> ascii_is_space env = ascii_is_space env0
              \<and> \<not> alloc_fails env ''foo.html''
              \<and> base_url c = Some ''http://x/y/''
              \<and> nsurl_join env (Some ''http://x/y/'') ''foo.html''
                  = (NSERROR_OK, ''http://x/y/foo.html'')
              \<longrightarrow> html_meta_refresh_process_element env c n
                    = (NSERROR_OK,
                       c\<lparr>base := (base c)\<lparr>content_refresh := Some ''http://x/y/foo.html''\<rparr>,
                         refresh := True\<rparr>,
                       [Content_broadcast (CONTENT_MSG_REFRESH 1)])"
    using assms(5) by (auto simp: el meta_refresh_content_example)
  from a b b' c d show ?thesis by blast
qed


theorem html_meta_refresh_delay_and_target_witness:
  "attribute (element DOM_HTML_ELEMENT_TYPE_META [(''http-equiv'', ''Refresh''), (''content'', ''5'')])
       ''http-equiv'' = (DOM_NO_ERR, Some ''Refresh'')
   \<and> caseless_isequal ''Refresh'' ''refresh''
   \<and> attribute (element DOM_HTML_ELEMENT_TYPE_META [(''http-equiv'', ''Refresh''), (''content'', ''5'')])
       ''content'' = (DOM_NO_ERR, Some ''5'')
   \<and> \<not> (\<exists>ch. ascii_is_space env0 ch \<and> (is_digit ch \<or> ch = CHR ''.''))
   \<and> 2147483647 \<le> LONG_MAX env0
   \<and> delay_only env0 [] ''5'' [] [] [] []
   \<and> html_meta_refresh_process_element env0 htmlc0
         (element DOM_HTML_ELEMENT_TYPE_META [(''http-equiv'', ''Refresh''), (''content'', ''5'')])
       = (NSERROR_OK, htmlc0\<lparr>base := content0\<lparr>content_refresh := Some ''http://x/y/''\<rparr>\<rparr>,
          [Content_broadcast (CONTENT_MSG_REFRESH 5)])
   \<and> first_non_space env0 ''abc'' = Some (CHR ''a'')
   \<and> html_meta_refresh_process_element env0 htmlc0
         (element DOM_HTML_ELEMENT_TYPE_META [(''http-equiv'', ''Refresh''), (''content'', ''abc'')])
       = (NSERROR_OK, htmlc0, [])
   \<and> html_meta_refresh_process_element env0 htmlc0
         (element DOM_HTML_ELEMENT_TYPE_META
            [(''http-equiv'', ''Refresh''), (''content'', ''0; url=foo.html'')])
       = (NSERROR_OK,
          htmlc0\<lparr>base := content0\<lparr>content_refresh := Some ''http://x/y/foo.html''\<rparr>,
                 refresh := True\<rparr>,
          [Content_broadcast (CONTENT_MSG_REFRESH 1)])"
proof -
  let ?m = "\<lambda>s. element DOM_HTML_ELEMENT_TYPE_META [(''http-equiv'', ''Refresh''), (''content'', s)]"
  have eq: "\<And>s. attribute (?m s) ''http-equiv'' = (DOM_NO_ERR, Some ''Refresh'')"
    "caseless_isequal ''Refresh'' ''refresh''"
    "\<And>s. attribute (?m s) ''content'' = (DOM_NO_ERR, Some s)"
    by (simp_all add: element_def caseless_isequal_def)
  have nsp: "\<not> (\<exists>ch. ascii_is_space env0 ch \<and> (is_digit ch \<or> ch = CHR ''.''))"
    by (auto simp: env0_def is_digit_def)
  then have sp: "\<forall>ch. ascii_is_space env0 ch \<longrightarrow> \<not> is_digit ch \<and> ch \<noteq> CHR ''.''"
    by blast
  have lm: "2147483647 \<le> LONG_MAX env0"
    by (simp add: env0_def)
  have sh: "delay_only env0 [] ''5'' [] [] [] []"
    by (simp add: delay_only_def is_digit_def)
  have pd: "parsed_delay env0 ''5'' = 5"
    by (simp add: parsed_delay_def decimal_value_def digit_val_def is_digit_def env0_def)
  have fa: "first_non_space env0 ''abc'' = Some (CHR ''a'')"
    by (simp add: first_non_space_def env0_def)
  have b0: "base htmlc0 = content0" "url content0 = ''http://x/y/''"
    "base_url htmlc0 = Some ''http://x/y/''" "\<not> alloc_fails env0 ''foo.html''"
    "nsurl_join env0 (Some ''http://x/y/'') ''foo.html'' = (NSERROR_OK, ''http://x/y/foo.html'')"
    by (simp_all add: htmlc0_def content0_def env0_def)
  note t5 = html_meta_refresh_delay_and_target
    [where n = "?m ''5''" and e = "''Refresh''" and s = "''5''" and env = env0 and c = htmlc0,
     OF eq(1) eq(2) eq(3) sp lm]
  note ta = html_meta_refresh_delay_and_target
    [where n = "?m ''abc''" and e = "''Refresh''" and s = "''abc''" and env = env0 and c = htmlc0,
     OF eq(1) eq(2) eq(3) sp lm]
  note t0 = html_meta_refresh_delay_and_target
    [where n = "?m ''0; url=foo.html''" and e = "''Refresh''" and s = "''0; url=foo.html''"
       and env = env0 and c = htmlc0,
     OF eq(1) eq(2) eq(3) sp lm]
  have r5: "html_meta_refresh_process_element env0 htmlc0 (?m ''5'')
       = (NSERROR_OK, htmlc0\<lparr>base := content0\<lparr>content_refresh := Some ''http://x/y/''\<rparr>\<rparr>,
          [Content_broadcast (CONTENT_MSG_REFRESH 5)])"
  proof -
    from t5 have "parsed_delay env0 ''5'' \<le> 2147483647
              \<longrightarrow> refresh_delay env0 (parsed_delay env0 ''5'') = max 1 (parsed_delay env0 ''5'')"
      by blast
    then have rd: "refresh_delay env0 (parsed_delay env0 ''5'') = 5"
      by (simp add: pd)
    from t5 have "\<forall>ws1 ds fs ws2 sep ws3.
               ''5'' = ws1 @ ds @ fs @ ws2 @ sep @ ws3 \<and> delay_only env0 ws1 ds fs ws2 sep ws3
               \<longrightarrow> parsed_delay env0 ''5'' = decimal_value ds
                 \<and> html_meta_refresh_process_element env0 htmlc0 (?m ''5'')
                     = (NSERROR_OK,
                        htmlc0\<lparr>base := (base htmlc0)\<lparr>content_refresh := Some (url (base htmlc0))\<rparr>\<rparr>,
                        [Content_broadcast
                           (CONTENT_MSG_REFRESH (refresh_delay env0 (parsed_delay env0 ''5'')))])"
      by blast
    from this [rule_format, of "[]" "''5''" "[]" "[]" "[]" "[]"] sh
    show ?thesis by (simp add: rd b0)
  qed
  have ra: "html_meta_refresh_process_element env0 htmlc0 (?m ''abc'') = (NSERROR_OK, htmlc0, [])"
  proof -
    from ta have "(\<forall>ch. first_non_space env0 ''abc'' = Some ch \<longrightarrow> \<not> is_digit ch)
            \<longrightarrow> html_meta_refresh_process_element env0 htmlc0 (?m ''abc'') = (NSERROR_OK, htmlc0, [])"
      by blast
    then show ?thesis by (simp add: fa is_digit_def)
  qed
  have r0: "html_meta_refresh_process_element env0 htmlc0 (?m ''0; url=foo.html'')
       = (NSERROR_OK,
          htmlc0\<lparr>base := content0\<lparr>content_refresh := Some ''http://x/y/foo.html''\<rparr>,
                 refresh := True\<rparr>,
          [Content_broadcast (CONTENT_MSG_REFRESH 1)])"
  proof -
    from t0 have "''0; url=foo.html'' = ''0; url=foo.html'' \<and> ascii_is_space env0 = ascii_is_space env0
              \<and> \<not> alloc_fails env0 ''foo.html''
              \<and> base_url htmlc0 = Some ''http://x/y/''
              \<and> nsurl_join env0 (Some ''http://x/y/'') ''foo.html''
                  = (NSERROR_OK, ''http://x/y/foo.html'')
              \<longrightarrow> html_meta_refresh_process_element env0 htmlc0 (?m ''0; url=foo.html'')
                    = (NSERROR_OK,
                       htmlc0\<lparr>base := (base htmlc0)\<lparr>content_refresh := Some ''http://x/y/foo.html''\<rparr>,
                         refresh := True\<rparr>,
                       [Content_broadcast (CONTENT_MSG_REFRESH 1)])"
      by blast
    with b0 show ?thesis by simp
  qed
  from eq(1) [of "''5''"] eq(2) eq(3) [of "''5''"] nsp lm sh r5 fa ra r0 show ?thesis by simp
qed

text \<open>
  The claim as it was written makes the delay the parsed integer, whatever its size.
  The delay is an \<open>int\<close>: for the content \<open>4294967301\<close> a 64-bit \<open>long\<close> holds the
  number and the cast keeps its low 32 bits, 5; with a 32-bit \<open>long\<close>, \<open>strtol\<close> stops at
  2147483647.
\<close>

theorem html_meta_refresh_delay_counterexample:
  "snd (snd (html_meta_refresh_process_element env0 htmlc0
        (element DOM_HTML_ELEMENT_TYPE_META
           [(''http-equiv'', ''refresh''), (''content'', ''4294967301'')])))
     = [Content_broadcast (CONTENT_MSG_REFRESH 5)]
   \<and> snd (snd (html_meta_refresh_process_element (env0\<lparr>LONG_MAX := 2147483647\<rparr>) htmlc0
        (element DOM_HTML_ELEMENT_TYPE_META
           [(''http-equiv'', ''refresh''), (''content'', ''4294967301'')])))
     = [Content_broadcast (CONTENT_MSG_REFRESH 2147483647)]
   \<and> max 1 (parsed_delay env0 ''4294967301'') = 4294967301"
  by (simp add: html_meta_refresh_process_element_def meta_refresh_content_def
        meta_refresh_after_delay_def strtol_def int_of_long_def decimal_value_def digit_val_def
        is_digit_def caseless_isequal_def parsed_delay_def element_def env0_def Let_def)

section \<open>Properties of the mutation observer\<close>

lemma observer_ignores_meta_once_flagged:
  assumes "refresh htmlc"
    and "target evt = (DOM_NO_ERR, Some node)"
    and "node_type node = (DOM_NO_ERR, DOM_ELEMENT_NODE)"
    and "tag_type node = (DOM_NO_ERR, DOM_HTML_ELEMENT_TYPE_META)"
    and "\<not> enable_scripting htmlc"
  shows "dom_default_action_DOMNodeInserted_cb env htmlc evt = (htmlc, [])"
  using assms by (simp add: dom_default_action_DOMNodeInserted_cb_def)

text \<open>
  C7 says that once a refresh directive has set a refresh target, every later meta
  refresh element is ignored by the observer. The observer goes by the flag
  \<open>htmlc->refresh\<close>, and \<open>html_meta_refresh_process_element\<close> sets that flag only
  where it has joined a URL; where the directive is a delay alone it sets the target to
  the document's own URL and returns before the flag. On a document with the base
  \<open>http://x/y/\<close>: the element with content \<open>5\<close> sets the target \<open>http://x/y/\<close>; the
  element with content \<open>3; url=b.html\<close> that follows it is not ignored, it replaces the
  target and a second refresh request is broadcast; in the other order the second
  element is ignored.
\<close>

theorem observer_refresh_flag_not_set_by_delay_only:
  "observe_all env0 htmlc0
     [inserted (element DOM_HTML_ELEMENT_TYPE_META
                  [(''http-equiv'', ''refresh''), (''content'', ''5'')])]
     = (htmlc0\<lparr>base := content0\<lparr>content_refresh := Some ''http://x/y/''\<rparr>\<rparr>,
        [Content_broadcast (CONTENT_MSG_REFRESH 5)])
   \<and> observe_all env0 htmlc0
     [inserted (element DOM_HTML_ELEMENT_TYPE_META
                  [(''http-equiv'', ''refresh''), (''content'', ''5'')]),
      inserted (element DOM_HTML_ELEMENT_TYPE_META
                  [(''http-equiv'', ''refresh''), (''content'', ''3; url=b.html'')])]
     = (htmlc0\<lparr>base := content0\<lparr>content_refresh := Some ''http://x/y/b.html''\<rparr>,
               refresh := True\<rparr>,
        [Content_broadcast (CONTENT_MSG_REFRESH 5), Content_broadcast (CONTENT_MSG_REFRESH 3)])
   \<and> observe_all env0 htmlc0
     [inserted (element DOM_HTML_ELEMENT_TYPE_META
                  [(''http-equiv'', ''refresh''), (''content'', ''3; url=b.html'')]),
      inserted (element DOM_HTML_ELEMENT_TYPE_META
                  [(''http-equiv'', ''refresh''), (''content'', ''5'')])]
     = (htmlc0\<lparr>base := content0\<lparr>content_refresh := Some ''http://x/y/b.html''\<rparr>,
               refresh := True\<rparr>,
        [Content_broadcast (CONTENT_MSG_REFRESH 3)])"
  by (simp add: dom_default_action_DOMNodeInserted_cb_def html_meta_refresh_process_element_def
        meta_refresh_content_def meta_refresh_after_delay_def meta_refresh_url_part_def
        meta_refresh_join_def strtol_def int_of_long_def decimal_value_def digit_val_def
        is_digit_def caseless_isequal_def strdup_def element_def inserted_def
        env0_def htmlc0_def content0_def Let_def)

section \<open>Properties of the conversion state machine\<close>

text \<open>
  C2. While \<open>html_begin_conversion\<close> completes the parse: if the parser reports that
  it is paused (a synchronous script has come to light) and the active-fetch counter is
  greater than zero, the function returns true with the content as the parser left it
  (the flag \<open>parse_completed\<close> is not set) and broadcasts nothing. Every other outcome
  of the parser that is not \<open>DOM_HUBBUB_OK\<close> is broadcast as an error and the function
  returns false, again without setting the flag. After \<open>DOM_HUBBUB_OK\<close> the flag is set
  and the function goes on to the guard.
\<close>

theorem html_begin_conversion_paused:
  assumes "parse_completed htmlc = False"
    and "dom_hubbub_parser_completed env htmlc = (error, h)"
  shows "(error = DOM_HUBBUB_HUBBUB_ERR_PAUSED \<and> active (base h) > 0
            \<longrightarrow> html_begin_conversion env htmlc = (True, h, [Parser_completed]))
         \<and> (error \<noteq> DOM_HUBBUB_OK
              \<and> \<not> (error = DOM_HUBBUB_HUBBUB_ERR_PAUSED \<and> active (base h) > 0)
            \<longrightarrow> html_begin_conversion env htmlc
                  = (False, h,
                     [Parser_completed,
                      Content_broadcast_error (libdom_hubbub_error_to_nserror env error)]))
         \<and> (error = DOM_HUBBUB_OK
            \<longrightarrow> html_begin_conversion env htmlc
                  = (case begin_conversion_guarded env (h\<lparr>parse_completed := True\<rparr>) of
                       (r, h', ev) \<Rightarrow> (r, h', Parser_completed # ev)))"
  using assms by (simp add: html_begin_conversion_def)

theorem html_begin_conversion_paused_witness:
  "parse_completed htmlc0 = False
   \<and> dom_hubbub_parser_completed
        (env0\<lparr>dom_hubbub_parser_completed :=
                 (\<lambda>h. (DOM_HUBBUB_HUBBUB_ERR_PAUSED, h\<lparr>base := (base h)\<lparr>active := 1\<rparr>\<rparr>))\<rparr>)
        htmlc0
       = (DOM_HUBBUB_HUBBUB_ERR_PAUSED, htmlc0\<lparr>base := content0\<lparr>active := 1\<rparr>\<rparr>)
   \<and> html_begin_conversion
        (env0\<lparr>dom_hubbub_parser_completed :=
                 (\<lambda>h. (DOM_HUBBUB_HUBBUB_ERR_PAUSED, h\<lparr>base := (base h)\<lparr>active := 1\<rparr>\<rparr>))\<rparr>)
        htmlc0
       = (True, htmlc0\<lparr>base := content0\<lparr>active := 1\<rparr>\<rparr>, [Parser_completed])
   \<and> parse_completed (htmlc0\<lparr>base := content0\<lparr>active := 1\<rparr>\<rparr>) = False
   \<and> html_begin_conversion
        (env0\<lparr>dom_hubbub_parser_completed := (\<lambda>h. (DOM_HUBBUB_NOMEM, h))\<rparr>) htmlc0
       = (False, htmlc0, [Parser_completed, Content_broadcast_error NSERROR_NOMEM])"
proof -
  let ?e1 = "env0\<lparr>dom_hubbub_parser_completed :=
                 (\<lambda>h. (DOM_HUBBUB_HUBBUB_ERR_PAUSED, h\<lparr>base := (base h)\<lparr>active := 1\<rparr>\<rparr>))\<rparr>"
  let ?e2 = "env0\<lparr>dom_hubbub_parser_completed := (\<lambda>h. (DOM_HUBBUB_NOMEM, h))\<rparr>"
  have p: "parse_completed htmlc0 = False"
    by (simp add: htmlc0_def)
  have c1: "dom_hubbub_parser_completed ?e1 htmlc0
              = (DOM_HUBBUB_HUBBUB_ERR_PAUSED, htmlc0\<lparr>base := content0\<lparr>active := 1\<rparr>\<rparr>)"
    by (simp add: htmlc0_def)
  have c2: "dom_hubbub_parser_completed ?e2 htmlc0 = (DOM_HUBBUB_NOMEM, htmlc0)"
    by simp
  have n: "libdom_hubbub_error_to_nserror ?e2 DOM_HUBBUB_NOMEM = NSERROR_NOMEM"
    by (simp add: env0_def to_nserror0_def)
  from html_begin_conversion_paused [OF p c1] html_begin_conversion_paused [OF p c2] p c1 n
  show ?thesis by (simp add: htmlc0_def)
qed

lemma html_can_begin_conversion_parse_completed:
  "html_can_begin_conversion (h\<lparr>parse_completed := b\<rparr>) = html_can_begin_conversion h"
  by (simp add: html_can_begin_conversion_def)

text \<open>
  C3. An aborted content never gets as far as the box tree. When
  \<open>html_begin_conversion\<close> has passed its guard and finds the aborted flag set (with
  the parse complete before the call, or completed by it), it puts the content into the
  error state, broadcasts \<open>NSERROR_STOPPED\<close> and returns false; when
  \<open>html_finish_conversion\<close> is entered with the flag set, it broadcasts
  \<open>NSERROR_STOPPED\<close> and puts the content into the error state. In none of these cases
  is \<open>dom_to_box\<close> called.
\<close>

theorem aborted_never_starts_box_conversion:
  "(parse_completed htmlc \<and> html_can_begin_conversion htmlc \<and> aborted htmlc
      \<longrightarrow> html_begin_conversion env htmlc
            = (False, htmlc\<lparr>base := (base htmlc)\<lparr>status := CONTENT_STATUS_ERROR\<rparr>\<rparr>,
               [Content_broadcast_error NSERROR_STOPPED]))
   \<and> (\<not> parse_completed htmlc \<and> dom_hubbub_parser_completed env htmlc = (DOM_HUBBUB_OK, h)
        \<and> html_can_begin_conversion h \<and> aborted h
      \<longrightarrow> html_begin_conversion env htmlc
            = (False, h\<lparr>parse_completed := True,
                        base := (base h)\<lparr>status := CONTENT_STATUS_ERROR\<rparr>\<rparr>,
               [Parser_completed, Content_broadcast_error NSERROR_STOPPED]))
   \<and> (aborted htmlc
      \<longrightarrow> html_finish_conversion env htmlc
            = (htmlc\<lparr>base := (base htmlc)\<lparr>status := CONTENT_STATUS_ERROR\<rparr>\<rparr>,
               [Content_broadcast_error NSERROR_STOPPED]))
   \<and> (aborted htmlc \<longrightarrow> Dom_to_box \<notin> set (snd (html_finish_conversion env htmlc)))
   \<and> (parse_completed htmlc \<and> aborted htmlc
      \<longrightarrow> Dom_to_box \<notin> set (snd (snd (html_begin_conversion env htmlc))))"
  by (simp add: html_begin_conversion_def begin_conversion_guarded_def html_finish_conversion_def
        content_set_error_def html_can_begin_conversion_parse_completed)

theorem aborted_never_starts_box_conversion_witness:
  "parse_completed (htmlc0\<lparr>parse_completed := True, aborted := True\<rparr>)
   \<and> html_can_begin_conversion (htmlc0\<lparr>parse_completed := True, aborted := True\<rparr>)
   \<and> aborted (htmlc0\<lparr>parse_completed := True, aborted := True\<rparr>)
   \<and> html_begin_conversion env0 (htmlc0\<lparr>parse_completed := True, aborted := True\<rparr>)
       = (False,
          htmlc0\<lparr>parse_completed := True, aborted := True,
                 base := content0\<lparr>status := CONTENT_STATUS_ERROR\<rparr>\<rparr>,
          [Content_broadcast_error NSERROR_STOPPED])
   \<and> \<not> parse_completed (htmlc0\<lparr>aborted := True\<rparr>)
   \<and> dom_hubbub_parser_completed env0 (htmlc0\<lparr>aborted := True\<rparr>)
       = (DOM_HUBBUB_OK, htmlc0\<lparr>aborted := True\<rparr>)
   \<and> html_begin_conversion env0 (htmlc0\<lparr>aborted := True\<rparr>)
       = (False,
          htmlc0\<lparr>aborted := True, parse_completed := True,
                 base := content0\<lparr>status := CONTENT_STATUS_ERROR\<rparr>\<rparr>,
          [Parser_completed, Content_broadcast_error NSERROR_STOPPED])
   \<and> html_finish_conversion env0 (htmlc0\<lparr>aborted := True\<rparr>)
       = (htmlc0\<lparr>aborted := True, base := content0\<lparr>status := CONTENT_STATUS_ERROR\<rparr>\<rparr>,
          [Content_broadcast_error NSERROR_STOPPED])"
proof -
  let ?a = "htmlc0\<lparr>parse_completed := True, aborted := True\<rparr>"
  let ?b = "htmlc0\<lparr>aborted := True\<rparr>"
  have f: "parse_completed ?a" "html_can_begin_conversion ?a" "aborted ?a"
    "\<not> parse_completed ?b" "dom_hubbub_parser_completed env0 ?b = (DOM_HUBBUB_OK, ?b)"
    "html_can_begin_conversion ?b" "aborted ?b" "base htmlc0 = content0"
    by (simp_all add: htmlc0_def content0_def env0_def html_can_begin_conversion_def)
  from aborted_never_starts_box_conversion [of ?a env0 ?a]
       aborted_never_starts_box_conversion [of ?b env0 ?b] f
  show ?thesis by simp
qed

lemma html_finish_conversion_select_ctx:
  "select_ctx htmlc \<noteq> None \<Longrightarrow> Dom_to_box \<notin> set (snd (html_finish_conversion env htmlc))"
  by (simp add: html_finish_conversion_def)

lemma html_finish_conversion_once:
  "length (filter (\<lambda>e. e = Dom_to_box) (snd (html_finish_conversion env htmlc))) \<le> 1"
  by (simp add: html_finish_conversion_def Let_def split: prod.splits)

lemma html_finish_conversion_creates:
  "\<not> aborted htmlc \<Longrightarrow> select_ctx htmlc = None
   \<Longrightarrow> fst (html_css_new_selection_context env htmlc) = NSERROR_OK
   \<Longrightarrow> select_ctx (fst (html_finish_conversion env htmlc)) \<noteq> None"
  by (auto simp: html_finish_conversion_def Let_def split: prod.splits)

lemma html_proceed_to_done_ready:
  "status (base html) = CONTENT_STATUS_READY \<Longrightarrow>
   status (base (fst (snd (html_proceed_to_done html))))
     = (if active (base html) = 0 then CONTENT_STATUS_DONE else CONTENT_STATUS_READY)"
  by (simp add: html_proceed_to_done_def content_set_done_def)

lemma html_box_convert_done_success:
  "success \<Longrightarrow> \<not> aborted c
   \<Longrightarrow> dom_document_get_document_element env (c\<lparr>box_conversion_context := None\<rparr>)
        = (DOM_NO_ERR, Some html)
   \<Longrightarrow> imagemap_extract env (c\<lparr>box_conversion_context := None\<rparr>) = NSERROR_OK
   \<Longrightarrow> status (base (fst (html_box_convert_done env c success)))
        = (if active (base c) = 0 then CONTENT_STATUS_DONE else CONTENT_STATUS_READY)"
  by (simp add: html_box_convert_done_def html_proceed_to_done_def content_set_done_def
        content_set_ready_def Let_def)

lemma html_box_convert_done_only_if:
  "status (base (fst (html_box_convert_done env c success))) = CONTENT_STATUS_DONE
   \<Longrightarrow> active (base c) = 0"
  by (simp add: html_box_convert_done_def html_proceed_to_done_def content_set_done_def
        content_set_ready_def content_set_error_def Let_def
        split: prod.splits if_splits)

text \<open>
  C4. Box-tree construction has a single point of entry. A call of
  \<open>html_finish_conversion\<close> on a content that has a selection context does not call
  \<open>dom_to_box\<close>; a call that creates the selection context leaves it in the content, so
  that no later call, whatever the collaborators answer then, calls \<open>dom_to_box\<close>; and no
  call calls it twice. When the box conversion is done, the content is DONE only if the
  active-fetch counter is zero: after a successful conversion (the root element is found
  and the image maps are extracted) it is DONE if the counter is zero and READY
  otherwise, and \<open>html_proceed_to_done\<close> moves a READY content to DONE exactly when the
  counter is zero.
\<close>

theorem box_conversion_single_entry:
  "(select_ctx htmlc \<noteq> None \<longrightarrow> Dom_to_box \<notin> set (snd (html_finish_conversion env htmlc)))
   \<and> (\<not> aborted htmlc \<and> select_ctx htmlc = None
        \<and> fst (html_css_new_selection_context env htmlc) = NSERROR_OK
      \<longrightarrow> select_ctx (fst (html_finish_conversion env htmlc)) \<noteq> None
        \<and> Dom_to_box \<notin> set (snd (html_finish_conversion env'
                                      (fst (html_finish_conversion env htmlc)))))
   \<and> length (filter (\<lambda>e. e = Dom_to_box) (snd (html_finish_conversion env htmlc))) \<le> 1
   \<and> (status (base (fst (html_box_convert_done env c success))) = CONTENT_STATUS_DONE
      \<longrightarrow> active (base c) = 0)
   \<and> (success \<and> \<not> aborted c
        \<and> dom_document_get_document_element env (c\<lparr>box_conversion_context := None\<rparr>)
            = (DOM_NO_ERR, Some html)
        \<and> imagemap_extract env (c\<lparr>box_conversion_context := None\<rparr>) = NSERROR_OK
      \<longrightarrow> status (base (fst (html_box_convert_done env c success)))
          = (if active (base c) = 0 then CONTENT_STATUS_DONE else CONTENT_STATUS_READY))
   \<and> (status (base r) = CONTENT_STATUS_READY
      \<longrightarrow> status (base (fst (snd (html_proceed_to_done r))))
          = (if active (base r) = 0 then CONTENT_STATUS_DONE else CONTENT_STATUS_READY))"
  using html_finish_conversion_select_ctx html_finish_conversion_once
    html_finish_conversion_creates html_proceed_to_done_ready html_box_convert_done_success
    html_box_convert_done_only_if
  by (intro conjI impI) (erule conjE | simp)+


theorem box_conversion_single_entry_witness:
  "select_ctx htmlc0 = None \<and> \<not> aborted htmlc0
   \<and> fst (html_css_new_selection_context env0 htmlc0) = NSERROR_OK
   \<and> html_finish_conversion env0 htmlc0
       = (htmlc0\<lparr>select_ctx := Some 7, box_conversion_context := Some 9\<rparr>,
          [Content_broadcast CONTENT_MSG_STATUS, Content_broadcast CONTENT_MSG_GETDIMS,
           Dom_to_box])
   \<and> Dom_to_box \<notin> set (snd (html_finish_conversion env0
                               (htmlc0\<lparr>select_ctx := Some 7, box_conversion_context := Some 9\<rparr>)))
   \<and> status (base (fst (html_box_convert_done env0
                          (htmlc0\<lparr>select_ctx := Some 7, box_conversion_context := Some 9\<rparr>)
                          True)))
       = CONTENT_STATUS_DONE
   \<and> status (base (fst (html_box_convert_done env0
                          (htmlc0\<lparr>base := content0\<lparr>active := 1\<rparr>, select_ctx := Some 7,
                                  box_conversion_context := Some 9\<rparr>)
                          True)))
       = CONTENT_STATUS_READY"
proof -
  let ?h1 = "htmlc0\<lparr>select_ctx := Some 7, box_conversion_context := Some 9\<rparr>"
  let ?h2 = "htmlc0\<lparr>base := content0\<lparr>active := 1\<rparr>, select_ctx := Some 7,
                     box_conversion_context := Some 9\<rparr>"
  have pre: "select_ctx htmlc0 = None" "\<not> aborted htmlc0"
    "fst (html_css_new_selection_context env0 htmlc0) = NSERROR_OK"
    by (simp_all add: htmlc0_def env0_def)
  have f1: "html_finish_conversion env0 htmlc0
       = (?h1, [Content_broadcast CONTENT_MSG_STATUS, Content_broadcast CONTENT_MSG_GETDIMS,
                Dom_to_box])"
    by (simp add: html_finish_conversion_def htmlc0_def env0_def Let_def)
  have pre2: "\<not> aborted ?h1" "\<not> aborted ?h2"
    "dom_document_get_document_element env0 (?h1\<lparr>box_conversion_context := None\<rparr>)
       = (DOM_NO_ERR, Some 1)"
    "dom_document_get_document_element env0 (?h2\<lparr>box_conversion_context := None\<rparr>)
       = (DOM_NO_ERR, Some 1)"
    "imagemap_extract env0 (?h1\<lparr>box_conversion_context := None\<rparr>) = NSERROR_OK"
    "imagemap_extract env0 (?h2\<lparr>box_conversion_context := None\<rparr>) = NSERROR_OK"
    "active (base ?h1) = 0" "active (base ?h2) = 1"
    by (simp_all add: htmlc0_def env0_def content0_def)
  note t1 = box_conversion_single_entry
    [where htmlc = htmlc0 and env = env0 and env' = env0 and c = ?h1 and success = True
       and html = 1]
  note t2 = box_conversion_single_entry
    [where htmlc = htmlc0 and env = env0 and env' = env0 and c = ?h2 and success = True
       and html = 1]
  note later = t1 [THEN conjunct2, THEN conjunct1, rule_format]
  note done1 = t1 [THEN conjunct2, THEN conjunct2, THEN conjunct2, THEN conjunct2,
                   THEN conjunct1, rule_format]
  note done2 = t2 [THEN conjunct2, THEN conjunct2, THEN conjunct2, THEN conjunct2,
                   THEN conjunct1, rule_format]
  have "Dom_to_box \<notin> set (snd (html_finish_conversion env0
                                  (fst (html_finish_conversion env0 htmlc0))))"
    using later pre by blast
  then have a: "Dom_to_box \<notin> set (snd (html_finish_conversion env0 ?h1))"
    unfolding f1 by simp
  have b: "status (base (fst (html_box_convert_done env0 ?h1 True))) = CONTENT_STATUS_DONE"
    using done1 pre2 by simp
  have c: "status (base (fst (html_box_convert_done env0 ?h2 True))) = CONTENT_STATUS_READY"
    using done2 pre2 by simp
  from pre f1 a b c show ?thesis by blast
qed

section \<open>Properties of feeding the parser\<close>

lemma html_process_data_encoding_change:
  assumes "dom_hubbub_parser_parse_chunk env c data = (dom_ret, h)"
    and "libdom_hubbub_error_to_nserror env dom_ret = NSERROR_ENCODING_CHANGE"
  shows "html_process_data env c data
           = (case html_process_encoding_change env h of
                (err, h1, ev1) \<Rightarrow>
                  if err \<noteq> NSERROR_OK
                  then (False, h1, [Parser_parse_chunk data] @ ev1 @ [Content_broadcast_error err])
                  else (True, h1, [Parser_parse_chunk data] @ ev1))"
  using assms by (simp add: html_process_data_def Let_def split: prod.splits)

lemma html_process_encoding_change_created:
  assumes "dom_hubbub_parser_get_encoding env h = (Some e, src)"
    and "\<not> alloc_fails env e"
    and "dom_hubbub_parser_create env (Some e) = (DOM_HUBBUB_OK, p, d)"
  shows "html_process_encoding_change env h
           = reparse_source env
               (h\<lparr>encoding_source := src, encoding := Some e, parser := Some p, document := Some d\<rparr>)
               (restart_events h [e])"
  using assms
  by (simp add: html_process_encoding_change_def strdup_def restart_events_def Let_def)

lemma html_process_encoding_change_fallback:
  assumes "dom_hubbub_parser_get_encoding env h = (Some e, src)"
    and "\<not> alloc_fails env e" "\<not> alloc_fails env ''Windows-1252''"
    and "fst (dom_hubbub_parser_create env (Some e)) \<noteq> DOM_HUBBUB_OK"
    and "dom_hubbub_parser_create env (Some ''Windows-1252'') = (DOM_HUBBUB_OK, p, d)"
  shows "html_process_encoding_change env h
           = reparse_source env
               (h\<lparr>encoding_source := src, encoding := Some ''Windows-1252'',
                  parser := Some p, document := Some d\<rparr>)
               (restart_events h [e, ''Windows-1252''])"
  using assms
  by (auto simp: html_process_encoding_change_def strdup_def restart_events_def Let_def
        split: prod.splits)

lemma html_process_encoding_change_failed:
  assumes "dom_hubbub_parser_get_encoding env h = (Some e, src)"
    and "\<not> alloc_fails env e" "\<not> alloc_fails env ''Windows-1252''"
    and "fst (dom_hubbub_parser_create env (Some e)) \<noteq> DOM_HUBBUB_OK"
    and "fst (dom_hubbub_parser_create env (Some ''Windows-1252'')) = error"
    and "error \<noteq> DOM_HUBBUB_OK"
  shows "html_process_encoding_change env h
           = (libdom_hubbub_error_to_nserror env error,
              h\<lparr>encoding_source := src, encoding := Some ''Windows-1252'', parser := None\<rparr>,
              restart_events h [e, ''Windows-1252''])"
  using assms
  by (auto simp: html_process_encoding_change_def strdup_def restart_events_def Let_def
        split: prod.splits)


lemma html_process_data_reparse:
  assumes "dom_hubbub_parser_parse_chunk env c data = (dom_ret, h)"
    and "libdom_hubbub_error_to_nserror env dom_ret = NSERROR_ENCODING_CHANGE"
    and "html_process_encoding_change env h = reparse_source env h1 ev"
    and "source_data (base h1) = src_data"
  shows "html_process_data env c data
           = (case dom_hubbub_parser_parse_chunk env h1 src_data of
                (error, h') \<Rightarrow>
                  (libdom_hubbub_error_to_nserror env error = NSERROR_OK, h',
                   Parser_parse_chunk data # ev @ [Parser_parse_chunk src_data]
                   @ (if libdom_hubbub_error_to_nserror env error = NSERROR_OK then []
                      else [Content_broadcast_error (libdom_hubbub_error_to_nserror env error)])))"
  using assms(3,4)
  by (simp add: html_process_data_encoding_change [OF assms(1,2)] reparse_source_def
        split: prod.splits)

text \<open>
  C9. When feeding a chunk reports an encoding change, the content asks the parser for
  the encoding it has detected, destroys the parser and creates a new one with that
  encoding, and gives the new parser the whole source buffer that the content has kept.
  If the creation with the detected encoding fails, a parser is created with
  \<open>Windows-1252\<close>, once, and the source is given to that one. If this creation fails
  too, the error is broadcast and \<open>html_process_data\<close> returns false. (The encoding was
  detected, \<open>strdup\<close> succeeded, and the code of the failed second creation is an error for
  \<open>libdom_hubbub_error_to_nserror\<close>.)
\<close>

theorem encoding_change_restarts_parser:
  assumes "dom_hubbub_parser_parse_chunk env c data = (dom_ret, h)"
    and "libdom_hubbub_error_to_nserror env dom_ret = NSERROR_ENCODING_CHANGE"
    and "dom_hubbub_parser_get_encoding env h = (Some e, src)"
    and "\<not> alloc_fails env e" "\<not> alloc_fails env ''Windows-1252''"
  shows "(dom_hubbub_parser_create env (Some e) = (DOM_HUBBUB_OK, p, d)
          \<longrightarrow> html_process_data env c data
              = (case dom_hubbub_parser_parse_chunk env
                        (h\<lparr>encoding_source := src, encoding := Some e,
                           parser := Some p, document := Some d\<rparr>)
                        (source_data (base h)) of
                   (error, h') \<Rightarrow>
                     (libdom_hubbub_error_to_nserror env error = NSERROR_OK, h',
                      Parser_parse_chunk data # restart_events h [e]
                      @ [Parser_parse_chunk (source_data (base h))]
                      @ (if libdom_hubbub_error_to_nserror env error = NSERROR_OK then []
                         else [Content_broadcast_error
                                 (libdom_hubbub_error_to_nserror env error)]))))
         \<and> (fst (dom_hubbub_parser_create env (Some e)) \<noteq> DOM_HUBBUB_OK
            \<and> dom_hubbub_parser_create env (Some ''Windows-1252'') = (DOM_HUBBUB_OK, p, d)
          \<longrightarrow> html_process_data env c data
              = (case dom_hubbub_parser_parse_chunk env
                        (h\<lparr>encoding_source := src, encoding := Some ''Windows-1252'',
                           parser := Some p, document := Some d\<rparr>)
                        (source_data (base h)) of
                   (error, h') \<Rightarrow>
                     (libdom_hubbub_error_to_nserror env error = NSERROR_OK, h',
                      Parser_parse_chunk data # restart_events h [e, ''Windows-1252'']
                      @ [Parser_parse_chunk (source_data (base h))]
                      @ (if libdom_hubbub_error_to_nserror env error = NSERROR_OK then []
                         else [Content_broadcast_error
                                 (libdom_hubbub_error_to_nserror env error)]))))
         \<and> (fst (dom_hubbub_parser_create env (Some e)) \<noteq> DOM_HUBBUB_OK
            \<and> fst (dom_hubbub_parser_create env (Some ''Windows-1252'')) \<noteq> DOM_HUBBUB_OK
            \<and> libdom_hubbub_error_to_nserror env
                 (fst (dom_hubbub_parser_create env (Some ''Windows-1252''))) \<noteq> NSERROR_OK
          \<longrightarrow> html_process_data env c data
              = (False,
                 h\<lparr>encoding_source := src, encoding := Some ''Windows-1252'', parser := None\<rparr>,
                 Parser_parse_chunk data # restart_events h [e, ''Windows-1252'']
                 @ [Content_broadcast_error
                      (libdom_hubbub_error_to_nserror env
                         (fst (dom_hubbub_parser_create env (Some ''Windows-1252''))))]))"
proof (intro conjI impI)
  assume cr: "dom_hubbub_parser_create env (Some e) = (DOM_HUBBUB_OK, p, d)"
  show "html_process_data env c data
              = (case dom_hubbub_parser_parse_chunk env
                        (h\<lparr>encoding_source := src, encoding := Some e,
                           parser := Some p, document := Some d\<rparr>)
                        (source_data (base h)) of
                   (error, h') \<Rightarrow>
                     (libdom_hubbub_error_to_nserror env error = NSERROR_OK, h',
                      Parser_parse_chunk data # restart_events h [e]
                      @ [Parser_parse_chunk (source_data (base h))]
                      @ (if libdom_hubbub_error_to_nserror env error = NSERROR_OK then []
                         else [Content_broadcast_error
                                 (libdom_hubbub_error_to_nserror env error)])))"
    by (rule html_process_data_reparse
          [OF assms(1,2) html_process_encoding_change_created [OF assms(3,4) cr]]) simp
next
  assume "fst (dom_hubbub_parser_create env (Some e)) \<noteq> DOM_HUBBUB_OK
            \<and> dom_hubbub_parser_create env (Some ''Windows-1252'') = (DOM_HUBBUB_OK, p, d)"
  then have f: "fst (dom_hubbub_parser_create env (Some e)) \<noteq> DOM_HUBBUB_OK"
    and cr: "dom_hubbub_parser_create env (Some ''Windows-1252'') = (DOM_HUBBUB_OK, p, d)"
    by simp_all
  show "html_process_data env c data
              = (case dom_hubbub_parser_parse_chunk env
                        (h\<lparr>encoding_source := src, encoding := Some ''Windows-1252'',
                           parser := Some p, document := Some d\<rparr>)
                        (source_data (base h)) of
                   (error, h') \<Rightarrow>
                     (libdom_hubbub_error_to_nserror env error = NSERROR_OK, h',
                      Parser_parse_chunk data # restart_events h [e, ''Windows-1252'']
                      @ [Parser_parse_chunk (source_data (base h))]
                      @ (if libdom_hubbub_error_to_nserror env error = NSERROR_OK then []
                         else [Content_broadcast_error
                                 (libdom_hubbub_error_to_nserror env error)])))"
    by (rule html_process_data_reparse
          [OF assms(1,2) html_process_encoding_change_fallback [OF assms(3,4,5) f cr]]) simp
next
  assume a: "fst (dom_hubbub_parser_create env (Some e)) \<noteq> DOM_HUBBUB_OK
            \<and> fst (dom_hubbub_parser_create env (Some ''Windows-1252'')) \<noteq> DOM_HUBBUB_OK
            \<and> libdom_hubbub_error_to_nserror env
                 (fst (dom_hubbub_parser_create env (Some ''Windows-1252''))) \<noteq> NSERROR_OK"
  then have f: "fst (dom_hubbub_parser_create env (Some e)) \<noteq> DOM_HUBBUB_OK"
    and g: "fst (dom_hubbub_parser_create env (Some ''Windows-1252'')) \<noteq> DOM_HUBBUB_OK"
    and n: "libdom_hubbub_error_to_nserror env
                 (fst (dom_hubbub_parser_create env (Some ''Windows-1252''))) \<noteq> NSERROR_OK"
    by simp_all
  show "html_process_data env c data
              = (False,
                 h\<lparr>encoding_source := src, encoding := Some ''Windows-1252'', parser := None\<rparr>,
                 Parser_parse_chunk data # restart_events h [e, ''Windows-1252'']
                 @ [Content_broadcast_error
                      (libdom_hubbub_error_to_nserror env
                         (fst (dom_hubbub_parser_create env (Some ''Windows-1252''))))])"
    using n
    by (simp add: html_process_data_encoding_change [OF assms(1,2)]
          html_process_encoding_change_failed [OF assms(3,4,5) f refl g])
qed


theorem encoding_change_restarts_parser_witness:
  "dom_hubbub_parser_parse_chunk
       (env0\<lparr>dom_hubbub_parser_parse_chunk :=
                (\<lambda>h d. if parser h = Some 0 then (DOM_HUBBUB_HUBBUB_ERR_ENCODINGCHANGE, h)
                       else (DOM_HUBBUB_OK, h)),
             dom_hubbub_parser_create :=
                (\<lambda>enc. if enc = Some ''UTF-8'' then (DOM_HUBBUB_BADPARM, 0, doc0)
                       else (DOM_HUBBUB_OK, 1, doc0))\<rparr>) htmlc0 ''<p>''
     = (DOM_HUBBUB_HUBBUB_ERR_ENCODINGCHANGE, htmlc0)
   \<and> libdom_hubbub_error_to_nserror env0 DOM_HUBBUB_HUBBUB_ERR_ENCODINGCHANGE
       = NSERROR_ENCODING_CHANGE
   \<and> dom_hubbub_parser_get_encoding env0 htmlc0 = (Some ''UTF-8'', 1)
   \<and> \<not> alloc_fails env0 ''UTF-8'' \<and> \<not> alloc_fails env0 ''Windows-1252''
   \<and> html_process_data
       (env0\<lparr>dom_hubbub_parser_parse_chunk :=
                (\<lambda>h d. if parser h = Some 0 then (DOM_HUBBUB_HUBBUB_ERR_ENCODINGCHANGE, h)
                       else (DOM_HUBBUB_OK, h)),
             dom_hubbub_parser_create :=
                (\<lambda>enc. if enc = Some ''UTF-8'' then (DOM_HUBBUB_BADPARM, 0, doc0)
                       else (DOM_HUBBUB_OK, 1, doc0))\<rparr>) htmlc0 ''<p>''
     = (True,
        htmlc0\<lparr>encoding_source := 1, encoding := Some ''Windows-1252'', parser := Some 1,
               document := Some doc0\<rparr>,
        [Parser_parse_chunk ''<p>'', Parser_get_encoding, Parser_destroy, Document_unref,
         Parser_create (Some ''UTF-8''), Parser_create (Some ''Windows-1252''),
         Parser_parse_chunk ''<html><body><p></p></body></html>''])
   \<and> html_process_data
       (env0\<lparr>dom_hubbub_parser_parse_chunk :=
                (\<lambda>h d. if parser h = Some 0 then (DOM_HUBBUB_HUBBUB_ERR_ENCODINGCHANGE, h)
                       else (DOM_HUBBUB_OK, h))\<rparr>) htmlc0 ''<p>''
     = (True,
        htmlc0\<lparr>encoding_source := 1, encoding := Some ''UTF-8'', parser := Some 1,
               document := Some doc0\<rparr>,
        [Parser_parse_chunk ''<p>'', Parser_get_encoding, Parser_destroy, Document_unref,
         Parser_create (Some ''UTF-8''),
         Parser_parse_chunk ''<html><body><p></p></body></html>''])
   \<and> html_process_data
       (env0\<lparr>dom_hubbub_parser_parse_chunk :=
                (\<lambda>h d. if parser h = Some 0 then (DOM_HUBBUB_HUBBUB_ERR_ENCODINGCHANGE, h)
                       else (DOM_HUBBUB_OK, h)),
             dom_hubbub_parser_create := (\<lambda>enc. (DOM_HUBBUB_BADPARM, 0, doc0))\<rparr>)
       htmlc0 ''<p>''
     = (False,
        htmlc0\<lparr>encoding_source := 1, encoding := Some ''Windows-1252'', parser := None\<rparr>,
        [Parser_parse_chunk ''<p>'', Parser_get_encoding, Parser_destroy, Document_unref,
         Parser_create (Some ''UTF-8''), Parser_create (Some ''Windows-1252''),
         Content_broadcast_error NSERROR_BAD_PARAMETER])"
proof -
  let ?feed = "\<lambda>h (d::string). if parser h = Some 0 then (DOM_HUBBUB_HUBBUB_ERR_ENCODINGCHANGE, h)
                       else (DOM_HUBBUB_OK, h)"
  let ?e1 = "env0\<lparr>dom_hubbub_parser_parse_chunk := ?feed,
                   dom_hubbub_parser_create :=
                     (\<lambda>enc. if enc = Some ''UTF-8'' then (DOM_HUBBUB_BADPARM, 0, doc0)
                            else (DOM_HUBBUB_OK, 1, doc0))\<rparr>"
  let ?e2 = "env0\<lparr>dom_hubbub_parser_parse_chunk := ?feed\<rparr>"
  let ?e3 = "env0\<lparr>dom_hubbub_parser_parse_chunk := ?feed,
                   dom_hubbub_parser_create := (\<lambda>enc. (DOM_HUBBUB_BADPARM, 0, doc0))\<rparr>"
  have feed: "dom_hubbub_parser_parse_chunk ?e1 htmlc0 ''<p>''
                = (DOM_HUBBUB_HUBBUB_ERR_ENCODINGCHANGE, htmlc0)"
    "dom_hubbub_parser_parse_chunk ?e2 htmlc0 ''<p>''
                = (DOM_HUBBUB_HUBBUB_ERR_ENCODINGCHANGE, htmlc0)"
    "dom_hubbub_parser_parse_chunk ?e3 htmlc0 ''<p>''
                = (DOM_HUBBUB_HUBBUB_ERR_ENCODINGCHANGE, htmlc0)"
    by (simp_all add: htmlc0_def)
  have map: "libdom_hubbub_error_to_nserror env0 DOM_HUBBUB_HUBBUB_ERR_ENCODINGCHANGE
               = NSERROR_ENCODING_CHANGE"
    "libdom_hubbub_error_to_nserror env0 DOM_HUBBUB_OK = NSERROR_OK"
    "libdom_hubbub_error_to_nserror env0 DOM_HUBBUB_BADPARM = NSERROR_BAD_PARAMETER"
    by (simp_all add: env0_def to_nserror0_def)
  have enc: "dom_hubbub_parser_get_encoding env0 htmlc0 = (Some ''UTF-8'', 1)"
    by (simp add: env0_def)
  have al: "\<not> alloc_fails env0 ''UTF-8''" "\<not> alloc_fails env0 ''Windows-1252''"
    by (simp_all add: env0_def)
  have cr: "dom_hubbub_parser_create env0 (Some ''UTF-8'') = (DOM_HUBBUB_OK, 1, doc0)"
    by (simp add: env0_def)
  have st: "document htmlc0 \<noteq> None" "source_data (base htmlc0) = ''<html><body><p></p></body></html>''"
    "parser htmlc0 = Some 0"
    by (simp_all add: htmlc0_def content0_def)
  note t1 = encoding_change_restarts_parser
    [where env = ?e1 and c = htmlc0 and data = "''<p>''" and h = htmlc0 and e = "''UTF-8''"
       and src = 1 and p = 1 and d = doc0 and dom_ret = DOM_HUBBUB_HUBBUB_ERR_ENCODINGCHANGE,
     THEN conjunct2, THEN conjunct1, rule_format]
  note t2 = encoding_change_restarts_parser
    [where env = ?e2 and c = htmlc0 and data = "''<p>''" and h = htmlc0 and e = "''UTF-8''"
       and src = 1 and p = 1 and d = doc0 and dom_ret = DOM_HUBBUB_HUBBUB_ERR_ENCODINGCHANGE,
     THEN conjunct1, rule_format]
  note t3 = encoding_change_restarts_parser
    [where env = ?e3 and c = htmlc0 and data = "''<p>''" and h = htmlc0 and e = "''UTF-8''"
       and src = 1 and p = 1 and d = doc0 and dom_ret = DOM_HUBBUB_HUBBUB_ERR_ENCODINGCHANGE,
     THEN conjunct2, THEN conjunct2, rule_format]
  have r1: "html_process_data ?e1 htmlc0 ''<p>''
     = (True,
        htmlc0\<lparr>encoding_source := 1, encoding := Some ''Windows-1252'', parser := Some 1,
               document := Some doc0\<rparr>,
        [Parser_parse_chunk ''<p>'', Parser_get_encoding, Parser_destroy, Document_unref,
         Parser_create (Some ''UTF-8''), Parser_create (Some ''Windows-1252''),
         Parser_parse_chunk ''<html><body><p></p></body></html>''])"
    using t1 feed map enc al st by (simp add: restart_events_def)
  have r2: "html_process_data ?e2 htmlc0 ''<p>''
     = (True,
        htmlc0\<lparr>encoding_source := 1, encoding := Some ''UTF-8'', parser := Some 1,
               document := Some doc0\<rparr>,
        [Parser_parse_chunk ''<p>'', Parser_get_encoding, Parser_destroy, Document_unref,
         Parser_create (Some ''UTF-8''),
         Parser_parse_chunk ''<html><body><p></p></body></html>''])"
    using t2 feed map enc al st cr by (simp add: restart_events_def)
  have r3: "html_process_data ?e3 htmlc0 ''<p>''
     = (False,
        htmlc0\<lparr>encoding_source := 1, encoding := Some ''Windows-1252'', parser := None\<rparr>,
        [Parser_parse_chunk ''<p>'', Parser_get_encoding, Parser_destroy, Document_unref,
         Parser_create (Some ''UTF-8''), Parser_create (Some ''Windows-1252''),
         Content_broadcast_error NSERROR_BAD_PARAMETER])"
    using t3 feed map enc al st by (simp add: restart_events_def)
  from feed(1) map(1) enc al r1 r2 r3 show ?thesis by blast
qed

section \<open>Properties of running a script through the document\<close>

lemma create_text_node_snd: "snd (dom_document_create_text_node doc s) = next_node doc"
  by (simp add: dom_document_create_text_node_def Let_def)

lemma create_text_node_next:
  "next_node (fst (dom_document_create_text_node doc s)) = Suc (next_node doc)"
  by (simp add: dom_document_create_text_node_def Let_def)

lemma create_element_snd: "snd (dom_document_create_element doc s) = next_node doc"
  by (simp add: dom_document_create_element_def Let_def)

lemma html_exec_result:
  "document htmlc = Some doc \<Longrightarrow>
   fst (html_exec x htmlc src)
     = (string_create x = DOM_NO_ERR \<and> get_body x = DOM_NO_ERR
        \<and> create_text_node x = DOM_NO_ERR \<and> create_element x = DOM_NO_ERR
        \<and> append_text x = DOM_NO_ERR \<and> append_script x = DOM_NO_ERR)"
  by (simp add: html_exec_def Let_def case_prod_beta)

lemma html_exec_document:
  "document htmlc = Some doc \<Longrightarrow> fst (html_exec x htmlc src) \<Longrightarrow>
   snd (html_exec x htmlc src)
     = htmlc\<lparr>document := Some (html_exec_unwind x (fst (run_script x src (script_attached doc src)))
                                (Suc (next_node doc)))\<rparr>"
  by (simp add: html_exec_def script_attached_def Let_def case_prod_beta
        create_text_node_snd create_text_node_next create_element_snd split: if_splits)

lemma script_attached_tree:
  assumes "body doc < next_node doc"
  shows "child_nodes (script_attached doc src) (body doc)
           = child_nodes doc (body doc) @ [Suc (next_node doc)]"
    and "child_nodes (script_attached doc src) (Suc (next_node doc)) = [next_node doc]"
    and "parent_node (script_attached doc src) (Suc (next_node doc)) = Some (body doc)"
    and "text_of (script_attached doc src) (next_node doc) = Some src"
    and "element_name (script_attached doc src) (Suc (next_node doc)) = Some ''SCRIPT''"
  using assms
  by (simp_all add: script_attached_def dom_document_create_text_node_def
        dom_document_create_element_def dom_node_append_child_def Let_def)

lemma script_attached_body: "body (script_attached doc src) = body doc"
  by (simp add: script_attached_def dom_document_create_text_node_def
        dom_document_create_element_def dom_node_append_child_def dom_node_remove_child_def
        Let_def split: option.splits)

lemma script_attached_next:
  "next_node (script_attached doc src) = Suc (Suc (next_node doc))"
  by (simp add: script_attached_def dom_document_create_text_node_def
        dom_document_create_element_def dom_node_append_child_def dom_node_remove_child_def
        Let_def split: option.splits)

lemma script_appends_p_children:
  "body d \<noteq> next_node d \<Longrightarrow>
   child_nodes (fst (script_appends_p src d)) (body d) = child_nodes d (body d) @ [next_node d]"
  by (simp add: script_appends_p_def dom_document_create_element_def dom_node_append_child_def
        Let_def)

lemma script_appends_p_parent:
  "k \<noteq> next_node d \<Longrightarrow> parent_node (fst (script_appends_p src d)) k = parent_node d k"
  by (simp add: script_appends_p_def dom_document_create_element_def dom_node_append_child_def
        Let_def)

lemma script_appends_p_body: "body (fst (script_appends_p src d)) = body d"
  by (simp add: script_appends_p_def dom_document_create_element_def dom_node_append_child_def
        Let_def)

lemma html_exec_unwind_children:
  "get_parent_node x = DOM_NO_ERR \<Longrightarrow> remove_child x = DOM_NO_ERR
   \<Longrightarrow> parent_node d s = Some b
   \<Longrightarrow> child_nodes (html_exec_unwind x d s) b = removeAll s (child_nodes d b)"
  by (simp add: html_exec_unwind_def dom_node_remove_child_def)

lemma html_exec_unwind_keeps_body: "body (html_exec_unwind x d s) = body d"
  by (simp add: html_exec_unwind_def dom_node_remove_child_def split: option.splits)

lemma html_exec_unwind_parent:
  "get_parent_node x = DOM_NO_ERR \<Longrightarrow> remove_child x = DOM_NO_ERR
   \<Longrightarrow> parent_node (html_exec_unwind x d s) s = None"
  by (simp add: html_exec_unwind_def dom_node_remove_child_def split: option.splits)

lemma html_exec_unwind_body:
  assumes "get_parent_node x = DOM_NO_ERR" "remove_child x = DOM_NO_ERR"
    and "parent_node d s = Some b" "child_nodes d b = cs @ [s]" "s \<notin> set cs"
  shows "child_nodes (html_exec_unwind x d s) b = cs"
  using assms by (simp add: html_exec_unwind_def dom_node_remove_child_def)


text \<open>
  C8. For a content with a document, \<open>html_exec\<close> returns true exactly when the string,
  the body, the text node and the script element could be obtained and both appends
  succeeded; the answer is the same whatever the script engine does, so it does not
  depend on whether the script threw. When it returns true, the script engine has seen
  the document with a new \<open>SCRIPT\<close> element as the last child of the body, whose only
  child is a new text node with the source, and the document that is left is that
  document, as the script left it, unwound. If the parent can be asked for and the child
  removed, the script element has no parent when \<open>html_exec\<close> returns; and if the script
  did not change which node is a child of which (it did nothing, or it threw), the child
  list of the body is what it was before the call.
\<close>

theorem html_exec_transient_script:
  assumes "document htmlc = Some doc"
    and "body doc < next_node doc"
    and "\<forall>k\<in>set (child_nodes doc (body doc)). k < next_node doc"
  shows "fst (html_exec x htmlc src)
           = (string_create x = DOM_NO_ERR \<and> get_body x = DOM_NO_ERR
              \<and> create_text_node x = DOM_NO_ERR \<and> create_element x = DOM_NO_ERR
              \<and> append_text x = DOM_NO_ERR \<and> append_script x = DOM_NO_ERR)
         \<and> fst (html_exec (x\<lparr>run_script := js\<rparr>) htmlc src) = fst (html_exec x htmlc src)
         \<and> (fst (html_exec x htmlc src)
            \<longrightarrow> snd (html_exec x htmlc src)
                  = htmlc\<lparr>document :=
                      Some (html_exec_unwind x (fst (run_script x src (script_attached doc src)))
                              (Suc (next_node doc)))\<rparr>
              \<and> child_nodes (script_attached doc src) (body doc)
                  = child_nodes doc (body doc) @ [Suc (next_node doc)]
              \<and> child_nodes (script_attached doc src) (Suc (next_node doc)) = [next_node doc]
              \<and> text_of (script_attached doc src) (next_node doc) = Some src
              \<and> element_name (script_attached doc src) (Suc (next_node doc)) = Some ''SCRIPT'')
         \<and> (fst (html_exec x htmlc src)
              \<and> get_parent_node x = DOM_NO_ERR \<and> remove_child x = DOM_NO_ERR
            \<longrightarrow> (\<exists>d. document (snd (html_exec x htmlc src)) = Some d
                    \<and> parent_node d (Suc (next_node doc)) = None))
         \<and> (fst (html_exec x htmlc src)
              \<and> get_parent_node x = DOM_NO_ERR \<and> remove_child x = DOM_NO_ERR
              \<and> child_nodes (fst (run_script x src (script_attached doc src)))
                  = child_nodes (script_attached doc src)
              \<and> parent_node (fst (run_script x src (script_attached doc src)))
                  = parent_node (script_attached doc src)
              \<and> body (fst (run_script x src (script_attached doc src))) = body doc
            \<longrightarrow> body_children (snd (html_exec x htmlc src)) = body_children htmlc)"
proof -
  let ?s = "Suc (next_node doc)"
  let ?d5 = "fst (run_script x src (script_attached doc src))"
  note res = html_exec_result [OF assms(1)]
  note tree = script_attached_tree [OF assms(2)]
  have fresh: "?s \<notin> set (child_nodes doc (body doc))"
    using assms(3) by auto
  have c: "fst (html_exec x htmlc src)
           = (string_create x = DOM_NO_ERR \<and> get_body x = DOM_NO_ERR
              \<and> create_text_node x = DOM_NO_ERR \<and> create_element x = DOM_NO_ERR
              \<and> append_text x = DOM_NO_ERR \<and> append_script x = DOM_NO_ERR)"
    by (rule res)
  have c': "fst (html_exec (x\<lparr>run_script := js\<rparr>) htmlc src) = fst (html_exec x htmlc src)"
    by (simp add: res)
  have a: "fst (html_exec x htmlc src)
            \<longrightarrow> snd (html_exec x htmlc src)
                  = htmlc\<lparr>document := Some (html_exec_unwind x ?d5 ?s)\<rparr>
              \<and> child_nodes (script_attached doc src) (body doc)
                  = child_nodes doc (body doc) @ [?s]
              \<and> child_nodes (script_attached doc src) ?s = [next_node doc]
              \<and> text_of (script_attached doc src) (next_node doc) = Some src
              \<and> element_name (script_attached doc src) ?s = Some ''SCRIPT''"
    using html_exec_document [OF assms(1)] tree by simp
  have b1: "fst (html_exec x htmlc src)
              \<and> get_parent_node x = DOM_NO_ERR \<and> remove_child x = DOM_NO_ERR
            \<longrightarrow> (\<exists>d. document (snd (html_exec x htmlc src)) = Some d
                    \<and> parent_node d ?s = None)"
    using html_exec_document [OF assms(1)] by (simp add: html_exec_unwind_parent)
  have b2: "fst (html_exec x htmlc src)
              \<and> get_parent_node x = DOM_NO_ERR \<and> remove_child x = DOM_NO_ERR
              \<and> child_nodes ?d5 = child_nodes (script_attached doc src)
              \<and> parent_node ?d5 = parent_node (script_attached doc src)
              \<and> body ?d5 = body doc
            \<longrightarrow> body_children (snd (html_exec x htmlc src)) = body_children htmlc"
  proof (intro impI, elim conjE)
    assume ok: "fst (html_exec x htmlc src)"
      and g: "get_parent_node x = DOM_NO_ERR" and r: "remove_child x = DOM_NO_ERR"
      and k: "child_nodes ?d5 = child_nodes (script_attached doc src)"
      and p: "parent_node ?d5 = parent_node (script_attached doc src)"
      and b: "body ?d5 = body doc"
    have u: "child_nodes (html_exec_unwind x ?d5 ?s) (body doc) = child_nodes doc (body doc)"
      using g r
    proof (rule html_exec_unwind_body)
      show "parent_node ?d5 ?s = Some (body doc)" by (simp add: p tree)
      show "child_nodes ?d5 (body doc) = child_nodes doc (body doc) @ [?s]" by (simp add: k tree)
      show "?s \<notin> set (child_nodes doc (body doc))" by (rule fresh)
    qed
    have "body (html_exec_unwind x ?d5 ?s) = body doc"
      using b by (simp add: html_exec_unwind_def dom_node_remove_child_def split: option.splits)
    with u show "body_children (snd (html_exec x htmlc src)) = body_children htmlc"
      using html_exec_document [OF assms(1) ok] assms(1) by (simp add: body_children_def)
  qed
  from c c' a b1 b2 show ?thesis by blast
qed


theorem html_exec_transient_script_witness:
  "document htmlc0 = Some doc0 \<and> body doc0 < next_node doc0
   \<and> child_nodes doc0 (body doc0) = [3] \<and> 3 < next_node doc0
   \<and> fst (html_exec exec_env0 htmlc0 ''alert(1)'')
   \<and> (\<exists>d. document (snd (html_exec exec_env0 htmlc0 ''alert(1)'')) = Some d
          \<and> parent_node d 5 = None)
   \<and> body_children (snd (html_exec exec_env0 htmlc0 ''alert(1)'')) = [3]
   \<and> fst (html_exec (exec_env0\<lparr>run_script := (\<lambda>src d. (d, False))\<rparr>) htmlc0 ''alert(1)'')
   \<and> \<not> fst (html_exec (exec_env0\<lparr>append_script := DOM_NO_MEM_ERR\<rparr>) htmlc0 ''alert(1)'')"
proof -
  have pre: "document htmlc0 = Some doc0" "body doc0 < next_node doc0"
    "child_nodes doc0 (body doc0) = [3]" "3 < next_node doc0"
    by (simp_all add: htmlc0_def doc0_def)
  then have wf: "\<forall>k\<in>set (child_nodes doc0 (body doc0)). k < next_node doc0"
    by simp
  have n: "next_node doc0 = 4" "body doc0 = 2"
    by (simp_all add: doc0_def)
  have ok: "string_create exec_env0 = DOM_NO_ERR" "get_body exec_env0 = DOM_NO_ERR"
    "create_text_node exec_env0 = DOM_NO_ERR" "create_element exec_env0 = DOM_NO_ERR"
    "append_text exec_env0 = DOM_NO_ERR" "append_script exec_env0 = DOM_NO_ERR"
    "get_parent_node exec_env0 = DOM_NO_ERR" "remove_child exec_env0 = DOM_NO_ERR"
    "\<And>s d. run_script exec_env0 s d = (d, True)"
    by (simp_all add: exec_env0_def)
  note t = html_exec_transient_script
    [OF pre(1) pre(2) wf, where x = exec_env0 and src = "''alert(1)''"
       and js = "\<lambda>src d. (d, False)"]
  note t' = html_exec_transient_script
    [OF pre(1) pre(2) wf, where x = "exec_env0\<lparr>append_script := DOM_NO_MEM_ERR\<rparr>"
       and src = "''alert(1)''" and js = "\<lambda>src d. (d, False)"]
  have r: "fst (html_exec exec_env0 htmlc0 ''alert(1)'')"
    using t [THEN conjunct1] ok by simp
  have r2: "fst (html_exec (exec_env0\<lparr>run_script := (\<lambda>src d. (d, False))\<rparr>) htmlc0 ''alert(1)'')"
    using t [THEN conjunct2, THEN conjunct1] r by simp
  have r3: "\<not> fst (html_exec (exec_env0\<lparr>append_script := DOM_NO_MEM_ERR\<rparr>) htmlc0 ''alert(1)'')"
    using t' [THEN conjunct1] by simp
  have b1: "\<exists>d. document (snd (html_exec exec_env0 htmlc0 ''alert(1)'')) = Some d
          \<and> parent_node d 5 = None"
    using t [THEN conjunct2, THEN conjunct2, THEN conjunct2, THEN conjunct1] r ok n by simp
  have bc: "body_children htmlc0 = [3]"
    by (simp add: body_children_def htmlc0_def doc0_def)
  have b2: "body_children (snd (html_exec exec_env0 htmlc0 ''alert(1)'')) = [3]"
    using t [THEN conjunct2, THEN conjunct2, THEN conjunct2, THEN conjunct2] r ok bc
    by (simp add: script_attached_body)
  from pre r b1 b2 r2 r3 show ?thesis by blast
qed


lemma html_exec_script_appends_p:
  assumes doc: "document htmlc = Some doc0"
  shows "fst (html_exec (exec_env0\<lparr>run_script := script_appends_p\<rparr>) htmlc src)
         \<and> body_children htmlc = [3]
         \<and> body_children (snd (html_exec (exec_env0\<lparr>run_script := script_appends_p\<rparr>) htmlc src))
             = [3, 6]"
proof -
  let ?x = "exec_env0\<lparr>run_script := script_appends_p\<rparr>"
  let ?D = "script_attached doc0 src"
  let ?d5 = "fst (script_appends_p src ?D)"
  have n: "next_node doc0 = 4" "body doc0 = 2" "child_nodes doc0 2 = [3]"
    by (simp_all add: doc0_def)
  have ok: "get_parent_node ?x = DOM_NO_ERR" "remove_child ?x = DOM_NO_ERR"
    "run_script ?x = script_appends_p"
    by (simp_all add: exec_env0_def)
  have r: "fst (html_exec ?x htmlc src)"
    by (simp add: html_exec_result [OF doc] exec_env0_def)
  have D: "child_nodes ?D 2 = [3, 5]" "parent_node ?D 5 = Some 2" "next_node ?D = 6" "body ?D = 2"
    using script_attached_tree [of doc0 src] script_attached_next [of doc0 src]
      script_attached_body [of doc0 src]
    by (simp_all add: n)
  have d5: "child_nodes ?d5 2 = [3, 5, 6]" "parent_node ?d5 5 = Some 2" "body ?d5 = 2"
    using script_appends_p_children [of ?D src] script_appends_p_parent [of 5 ?D src]
      script_appends_p_body [of src ?D]
    by (simp_all add: D)
  have u: "child_nodes (html_exec_unwind ?x ?d5 5) 2 = [3, 6]" "body (html_exec_unwind ?x ?d5 5) = 2"
    using html_exec_unwind_children [OF ok(1) ok(2) d5(2)] html_exec_unwind_keeps_body [of ?x ?d5 5]
    by (simp_all add: d5)
  have b0: "body_children htmlc = [3]"
    by (simp add: body_children_def doc n)
  have "body_children (snd (html_exec ?x htmlc src)) = [3, 6]"
    using html_exec_document [OF doc r] by (simp add: body_children_def ok(3) n u)
  with r b0 show ?thesis by blast
qed

text \<open>
  The claim as it was written has the child list of the body unchanged after every
  call. The script runs while its element is attached, and what it does to the tree
  stays: after a script that appends a \<open>P\<close> element to the body, the body has one
  child more; only the script element is gone. So it is on the content \<open>htmlc0\<close>, and
  on the same content with scripting enabled.
\<close>

theorem html_exec_script_effect_counterexample:
  "fst (html_exec (exec_env0\<lparr>run_script := script_appends_p\<rparr>) htmlc0
          ''document.body.appendChild(document.createElement(\"p\"))'')
   \<and> body_children htmlc0 = [3]
   \<and> body_children (snd (html_exec (exec_env0\<lparr>run_script := script_appends_p\<rparr>) htmlc0
          ''document.body.appendChild(document.createElement(\"p\"))'')) = [3, 6]
   \<and> enable_scripting (htmlc0\<lparr>enable_scripting := True\<rparr>)
   \<and> fst (html_exec (exec_env0\<lparr>run_script := script_appends_p\<rparr>)
          (htmlc0\<lparr>enable_scripting := True\<rparr>)
          ''document.body.appendChild(document.createElement(\"p\"))'')
   \<and> body_children (htmlc0\<lparr>enable_scripting := True\<rparr>) = [3]
   \<and> body_children (snd (html_exec (exec_env0\<lparr>run_script := script_appends_p\<rparr>)
          (htmlc0\<lparr>enable_scripting := True\<rparr>)
          ''document.body.appendChild(document.createElement(\"p\"))'')) = [3, 6]"
proof -
  have d: "document htmlc0 = Some doc0" "document (htmlc0\<lparr>enable_scripting := True\<rparr>) = Some doc0"
    by (simp_all add: htmlc0_def)
  from html_exec_script_appends_p [OF d(1)] html_exec_script_appends_p [OF d(2)]
  show ?thesis by simp
qed

end
